theory Spec2Isabelle
  imports Complex_Main "HOL-Library.Word"
begin

section \<open>The catalog store of \<^verbatim>\<open>app_full.py\<close>\<close>

text \<open>
  The four tables that the recommendation and event endpoints read and write, with the
  columns those endpoints use. A table is the list of its rows in the order a plain
  \<^verbatim>\<open>SELECT *\<close> yields them. TEXT columns are strings; on every path modelled here a
  NULL in \<^verbatim>\<open>interests\<close>, \<^verbatim>\<open>tags\<close>, \<^verbatim>\<open>skill_level\<close> or \<^verbatim>\<open>difficulty\<close> behaves as the
  empty string does. \<^verbatim>\<open>popularity_score\<close> is the REAL column, and a timestamp is a
  number of microseconds, the resolution of Python's \<^verbatim>\<open>datetime\<close>. Floats are read as
  reals: a sum or product here is the exact one, where the code has the nearest double,
  so a strict inequality between two scores here may be an equality in the code.
\<close>

record user =
  user_id :: string
  skill_level :: string
  interests :: string
  last_active :: "int option"

record content =
  content_id :: string
  title :: string
  content_type :: string
  difficulty :: string
  tags :: string
  popularity_score :: real
  created_at :: int

record event =
  event_id :: string
  ev_user_id :: string
  ev_content_id :: string
  event_type :: string
  ev_value :: "real option"
  session_id :: "string option"
  ev_timestamp :: int

record recommendation_log =
  log_id :: string
  log_user_id :: string
  log_content_id :: string
  log_score :: real
  log_model_version :: string
  log_reason_tags :: string
  clicked :: bool

record store =
  users :: "user list"
  contents :: "content list"
  events :: "event list"
  recommendation_logs :: "recommendation_log list"

text \<open>
  The failures of the two endpoints: HTTP 404 (\<^verbatim>\<open>HTTPException(status_code=404)\<close>),
  the rejection of \<^verbatim>\<open>k\<close> outside \<^verbatim>\<open>Query(10, ge=1, le=50)\<close>, and the
  \<^verbatim>\<open>sqlite3.IntegrityError\<close> of an INSERT whose PRIMARY KEY is already in the table.
\<close>

datatype error = NotFound | ValidationError | IntegrityError

text \<open>The three strategies the \<^verbatim>\<open>strategy\<close> query parameter admits.\<close>

datatype strategy = Collaborative | ContentBased | Hybrid

text \<open>
  What the code takes from outside the store during one request, in the order it asks:
  the clock and the random generator are read once per scored candidate, a log id is
  drawn once per logged recommendation. \<^verbatim>\<open>random.random()\<close> is a 53-bit integer
  divided by \<open>2 ^ 53\<close>. Two orders are chosen by the platform and not by the program:
  the order in which a Python set is iterated, and the order in which SQLite enumerates
  the groups of a GROUP BY before ORDER BY sorts them. Each is given as a rank: the
  elements (the group keys) come by ascending rank, and every order of distinct elements
  is the order of some rank. The order of a set depends on how the set was built, so its
  rank is chosen per pair of lists the intersection is built from.
\<close>

record runtime =
  clock :: "nat \<Rightarrow> int"
  random_draw :: "nat \<Rightarrow> 53 word"
  set_rank :: "string list \<Rightarrow> string list \<Rightarrow> string \<Rightarrow> nat"
  row_rank :: "string \<Rightarrow> nat"
  log_ids :: "nat \<Rightarrow> string"

section \<open>Strings: \<^verbatim>\<open>split(',')\<close> and \<^verbatim>\<open>','.join\<close>\<close>

fun split_comma :: "string \<Rightarrow> string list" where
  "split_comma [] = [[]]"
| "split_comma (c # cs) =
     (if c = CHR '','' then [] # split_comma cs
      else (case split_comma cs of
              [] \<Rightarrow> [[c]]
            | w # ws \<Rightarrow> (c # w) # ws))"

text \<open>\<^verbatim>\<open>x.split(',') if x else []\<close>\<close>

definition tag_list :: "string \<Rightarrow> string list" where
  "tag_list s = (if s = [] then [] else split_comma s)"

fun join_comma :: "string list \<Rightarrow> string" where
  "join_comma [] = []"
| "join_comma [x] = x"
| "join_comma (x # y # ys) = x @ '','' @ join_comma (y # ys)"

section \<open>The user's history and the peer query\<close>

text \<open>
  \<^verbatim>\<open>SELECT content_id, event_type, COUNT(*) ... WHERE user_id = ? GROUP BY content_id,
  event_type\<close>, collected into \<^verbatim>\<open>user_history[content_id][event_type]\<close>.
\<close>

definition interaction_count :: "event list \<Rightarrow> string \<Rightarrow> string \<Rightarrow> string \<Rightarrow> nat" where
  "interaction_count evs uid cid ty =
     length (filter (\<lambda>e. ev_user_id e = uid \<and> ev_content_id e = cid \<and> event_type e = ty) evs)"

definition user_history :: "event list \<Rightarrow> string \<Rightarrow> string \<rightharpoonup> (string \<rightharpoonup> nat)" where
  "user_history evs uid cid =
     (if filter (\<lambda>e. ev_user_id e = uid \<and> ev_content_id e = cid) evs = [] then None
      else Some (\<lambda>ty. if interaction_count evs uid cid ty = 0 then None
                       else Some (interaction_count evs uid cid ty)))"

text \<open>\<^verbatim>\<open>content_id in user_history and 'complete' in user_history[content_id]\<close>\<close>

definition already_completed :: "event list \<Rightarrow> string \<Rightarrow> string \<Rightarrow> bool" where
  "already_completed evs uid cid =
     (case user_history evs uid cid of
        None \<Rightarrow> False
      | Some h \<Rightarrow> h ''complete'' \<noteq> None)"

text \<open>
  The rows of \<^verbatim>\<open>events e1 JOIN events e2 ON e1.content_id = e2.content_id WHERE
  e1.user_id = ? AND e2.user_id != ?\<close>.
\<close>

definition join_rows :: "event list \<Rightarrow> string \<Rightarrow> (event \<times> event) list" where
  "join_rows evs uid =
     concat (map (\<lambda>e1. map (\<lambda>e2. (e1, e2))
         (filter (\<lambda>e2. ev_content_id e1 = ev_content_id e2 \<and> ev_user_id e1 = uid \<and> ev_user_id e2 \<noteq> uid) evs)) evs)"

text \<open>\<^verbatim>\<open>COUNT(*) as common_items\<close> of the group \<^verbatim>\<open>e2.user_id = p\<close>.\<close>

definition common_items :: "event list \<Rightarrow> string \<Rightarrow> string \<Rightarrow> nat" where
  "common_items evs uid p = length (filter (\<lambda>r. ev_user_id (snd r) = p) (join_rows evs uid))"

text \<open>\<^verbatim>\<open>GROUP BY e2.user_id\<close>: one row per user that occurs in the join.\<close>

definition peer_groups :: "event list \<Rightarrow> string \<Rightarrow> (string \<times> nat) list" where
  "peer_groups evs uid =
     map (\<lambda>p. (p, common_items evs uid p)) (remdups (map (\<lambda>r. ev_user_id (snd r)) (join_rows evs uid)))"

text \<open>
  \<^verbatim>\<open>ORDER BY common_items DESC LIMIT 10\<close>. The query names no second sort key: rows with
  the same count come in the order the engine enumerated them.
\<close>

definition similar_users :: "runtime \<Rightarrow> event list \<Rightarrow> string \<Rightarrow> (string \<times> nat) list" where
  "similar_users rt evs uid =
     take 10 (sort_key (\<lambda>r. - int (snd r))
                (sort_key (\<lambda>r. row_rank rt (fst r)) (peer_groups evs uid)))"

text \<open>
  \<^verbatim>\<open>SELECT COUNT(*) FROM events WHERE user_id = ? AND content_id = ? AND event_type IN
  ('like', 'complete')\<close>, tested \<^verbatim>\<open>> 0\<close>.
\<close>

definition liked_or_completed :: "event list \<Rightarrow> string \<Rightarrow> string \<Rightarrow> bool" where
  "liked_or_completed evs p cid =
     (0 < length (filter (\<lambda>e. ev_user_id e = p \<and> ev_content_id e = cid \<and>
                               (event_type e = ''like'' \<or> event_type e = ''complete'')) evs))"

text \<open>The loop over \<^verbatim>\<open>similar_users\<close> that stops at the first peer with such an event.\<close>

definition peer_affinity :: "runtime \<Rightarrow> event list \<Rightarrow> string \<Rightarrow> string \<Rightarrow> bool" where
  "peer_affinity rt evs uid cid =
     (find (\<lambda>r. liked_or_completed evs (fst r) cid) (similar_users rt evs uid) \<noteq> None)"

section \<open>Scoring one candidate\<close>

text \<open>\<^verbatim>\<open>len(set(user_interests) & set(content_tags))\<close>\<close>

definition tag_overlap :: "string list \<Rightarrow> string list \<Rightarrow> nat" where
  "tag_overlap user_interests content_tags = card (set user_interests \<inter> set content_tags)"

text \<open>\<^verbatim>\<open>list(set(user_interests) & set(content_tags))\<close>, in the set's iteration order.\<close>

definition overlap_list :: "runtime \<Rightarrow> string list \<Rightarrow> string list \<Rightarrow> string list" where
  "overlap_list rt user_interests content_tags =
     sort_key (set_rank rt user_interests content_tags)
       (remdups (filter (\<lambda>t. t \<in> set content_tags) user_interests))"

text \<open>\<^verbatim>\<open>if tag_overlap > 0: score += tag_overlap * 0.3\<close>, from \<^verbatim>\<open>score = 0.0\<close>.\<close>

definition tag_contribution :: "string list \<Rightarrow> string list \<Rightarrow> real" where
  "tag_contribution user_interests content_tags =
     (if 0 < tag_overlap user_interests content_tags
      then real (tag_overlap user_interests content_tags) * 0.3 else 0)"

text \<open>\<^verbatim>\<open>reason_tags.extend(list(set(user_interests) & set(content_tags))[:2])\<close>\<close>

definition tag_reasons :: "runtime \<Rightarrow> string list \<Rightarrow> string list \<Rightarrow> string list" where
  "tag_reasons rt user_interests content_tags =
     (if 0 < tag_overlap user_interests content_tags
      then take 2 (overlap_list rt user_interests content_tags) else [])"

text \<open>The dictionary \<^verbatim>\<open>difficulty_match\<close> and its two \<^verbatim>\<open>.get\<close> lookups.\<close>

definition difficulty_table :: "string \<rightharpoonup> (string \<rightharpoonup> real)" where
  "difficulty_table =
     [''novice'' \<mapsto> [''beginner'' \<mapsto> 1.0, ''intermediate'' \<mapsto> 0.5, ''advanced'' \<mapsto> 0.2],
      ''intermediate'' \<mapsto> [''beginner'' \<mapsto> 0.5, ''intermediate'' \<mapsto> 1.0, ''advanced'' \<mapsto> 0.7],
      ''expert'' \<mapsto> [''beginner'' \<mapsto> 0.3, ''intermediate'' \<mapsto> 0.7, ''advanced'' \<mapsto> 1.0]]"

definition difficulty_match :: "string \<Rightarrow> string \<Rightarrow> real" where
  "difficulty_match user_skill diff =
     (case (case difficulty_table user_skill of None \<Rightarrow> Map.empty | Some row \<Rightarrow> row) diff of
        None \<Rightarrow> 0.5
      | Some v \<Rightarrow> v)"

text \<open>
  The block under \<^verbatim>\<open>if strategy in ["collaborative", "hybrid"]\<close>: whether it adds 0.2
  and the tag.
\<close>

definition peer_hit :: "runtime \<Rightarrow> event list \<Rightarrow> string \<Rightarrow> strategy \<Rightarrow> string \<Rightarrow> bool" where
  "peer_hit rt evs uid strat cid =
     ((strat = Collaborative \<or> strat = Hybrid) \<and> peer_affinity rt evs uid cid)"

text \<open>The running total just before \<^verbatim>\<open>score *= recency_factor\<close>.\<close>

definition raw_score :: "runtime \<Rightarrow> event list \<Rightarrow> user \<Rightarrow> strategy \<Rightarrow> content \<Rightarrow> real" where
  "raw_score rt evs usr strat c =
     tag_contribution (tag_list (interests usr)) (tag_list (tags c))
     + difficulty_match (skill_level usr) (difficulty c) * 0.2
     + popularity_score c * 0.15
     + (if peer_hit rt evs (user_id usr) strat (content_id c) then 0.2 else 0)"

text \<open>\<^verbatim>\<open>(datetime.now() - datetime.fromisoformat(content['created_at'])).days\<close>\<close>

definition days_old :: "int \<Rightarrow> int \<Rightarrow> int" where
  "days_old now created = (now - created) div 86400000000"

text \<open>\<^verbatim>\<open>max(0.5, 1.0 - (days_old / 365))\<close>\<close>

definition recency_factor :: "int \<Rightarrow> real" where
  "recency_factor d = max 0.5 (1.0 - real_of_int d / 365)"

text \<open>The running total after \<^verbatim>\<open>score *= recency_factor\<close>.\<close>

definition decayed_score :: "runtime \<Rightarrow> event list \<Rightarrow> user \<Rightarrow> strategy \<Rightarrow> nat \<Rightarrow> content \<Rightarrow> real" where
  "decayed_score rt evs usr strat i c =
     raw_score rt evs usr strat c * recency_factor (days_old (clock rt i) (created_at c))"

text \<open>\<^verbatim>\<open>random.uniform(a, b)\<close> is \<^verbatim>\<open>a + (b - a) * random()\<close>.\<close>

definition uniform :: "real \<Rightarrow> real \<Rightarrow> 53 word \<Rightarrow> real" where
  "uniform a b w = a + (b - a) * (real (unat w) / 2 ^ 53)"

text \<open>\<^verbatim>\<open>score += random.uniform(0, 0.1)\<close>, then \<^verbatim>\<open>min(score, 1.0)\<close>.\<close>

definition final_score :: "runtime \<Rightarrow> event list \<Rightarrow> user \<Rightarrow> strategy \<Rightarrow> nat \<Rightarrow> content \<Rightarrow> real" where
  "final_score rt evs usr strat i c =
     min (decayed_score rt evs usr strat i c + uniform 0 0.1 (random_draw rt i)) 1.0"

text \<open>The list \<^verbatim>\<open>reason_tags\<close> when the entry is appended, before \<^verbatim>\<open>[:3]\<close>.\<close>

definition found_tags :: "runtime \<Rightarrow> event list \<Rightarrow> user \<Rightarrow> strategy \<Rightarrow> content \<Rightarrow> string list" where
  "found_tags rt evs usr strat c =
     tag_reasons rt (tag_list (interests usr)) (tag_list (tags c))
     @ (if peer_hit rt evs (user_id usr) strat (content_id c)
        then [''popular_with_similar_users''] else [])"

record recommendation =
  rec_content_id :: string
  rec_title :: string
  score :: real
  reason_tags :: "string list"
  rec_difficulty :: string
  rec_content_type :: string

text \<open>The body of the loop for a candidate that is not skipped; \<open>i\<close> counts the candidates scored before it.\<close>

definition score_candidate :: "runtime \<Rightarrow> event list \<Rightarrow> user \<Rightarrow> strategy \<Rightarrow> nat \<Rightarrow> content \<Rightarrow> recommendation" where
  "score_candidate rt evs usr strat i c =
     \<lparr> rec_content_id = content_id c,
       rec_title = title c,
       score = final_score rt evs usr strat i c,
       reason_tags = take 3 (if found_tags rt evs usr strat c = [] then [''recommended_for_you'']
                             else found_tags rt evs usr strat c),
       rec_difficulty = difficulty c,
       rec_content_type = content_type c \<rparr>"

section \<open>The recommendation request\<close>

text \<open>\<^verbatim>\<open>for content in all_content\<close>, with the \<^verbatim>\<open>continue\<close> for completed content.\<close>

fun score_all :: "runtime \<Rightarrow> event list \<Rightarrow> user \<Rightarrow> strategy \<Rightarrow> nat \<Rightarrow> content list \<Rightarrow> recommendation list" where
  "score_all rt evs usr strat i [] = []"
| "score_all rt evs usr strat i (c # cs) =
     (if already_completed evs (user_id usr) (content_id c)
      then score_all rt evs usr strat i cs
      else score_candidate rt evs usr strat i c # score_all rt evs usr strat (Suc i) cs)"

text \<open>
  \<^verbatim>\<open>recommendations.sort(key=lambda x: x['score'], reverse=True)\<close>: Python's sort is
  stable, also with \<^verbatim>\<open>reverse=True\<close>.
\<close>

definition sort_by_score :: "recommendation list \<Rightarrow> recommendation list" where
  "sort_by_score recs = sort_key (\<lambda>r. - score r) recs"

text \<open>
  The loop of INSERTs into \<^verbatim>\<open>recommendation_logs\<close>; \<open>j\<close> counts the ids drawn so far.
  An id that is already in the table raises, and nothing is committed.
\<close>

fun log_recommendations ::
  "runtime \<Rightarrow> string \<Rightarrow> nat \<Rightarrow> recommendation list \<Rightarrow> recommendation_log list \<Rightarrow> error + recommendation_log list" where
  "log_recommendations rt uid j [] logs = Inr logs"
| "log_recommendations rt uid j (r # rs) logs =
     (if log_ids rt j \<in> set (map log_id logs) then Inl IntegrityError
      else log_recommendations rt uid (Suc j) rs
             (logs @ [\<lparr> log_id = log_ids rt j,
                        log_user_id = uid,
                        log_content_id = rec_content_id r,
                        log_score = score r,
                        log_model_version = ''v2.0.0'',
                        log_reason_tags = join_comma (reason_tags r),
                        clicked = False \<rparr>]))"

record recommendation_response =
  resp_user_id :: string
  recommendations :: "recommendation list"
  model_version :: string
  resp_strategy :: strategy

text \<open>
  \<^verbatim>\<open>get_recommendations\<close>: the new store and the response or the failure. The field
  \<^verbatim>\<open>latency_ms\<close> (wall-clock time) and the WebSocket broadcast are left out.
\<close>

definition get_recommendations ::
  "runtime \<Rightarrow> store \<Rightarrow> string \<Rightarrow> int \<Rightarrow> strategy \<Rightarrow> store \<times> (error + recommendation_response)" where
  "get_recommendations rt s uid k strat =
     (if k < 1 \<or> 50 < k then (s, Inl ValidationError)
      else case find (\<lambda>u. user_id u = uid) (users s) of
        None \<Rightarrow> (s, Inl NotFound)
      | Some usr \<Rightarrow>
          (let recs = score_all rt (events s) usr strat 0 (contents s);
               top_recs = take (nat k) (sort_by_score recs)
           in case log_recommendations rt uid 0 top_recs (recommendation_logs s) of
                Inl e \<Rightarrow> (s, Inl e)
              | Inr logs \<Rightarrow>
                  (s\<lparr>recommendation_logs := logs\<rparr>,
                   Inr \<lparr> resp_user_id = uid, recommendations = top_recs,
                         model_version = ''v2.0.0'', resp_strategy = strat \<rparr>)))"

section \<open>Event ingestion\<close>

record event_create =
  ec_user_id :: string
  ec_content_id :: string
  ec_event_type :: string
  ec_value :: "real option"
  ec_session_id :: "string option"

record event_response =
  resp_event_id :: string
  status :: string
  resp_timestamp :: int

text \<open>\<^verbatim>\<open>SELECT COUNT(*) * 0.01 FROM events WHERE content_id = ?\<close>\<close>

definition event_volume :: "event list \<Rightarrow> string \<Rightarrow> nat" where
  "event_volume evs cid = length (filter (\<lambda>e. ev_content_id e = cid) evs)"

text \<open>\<^verbatim>\<open>UPDATE content SET popularity_score = (...) WHERE content_id = ?\<close>\<close>

definition update_popularity :: "event list \<Rightarrow> string \<Rightarrow> content list \<Rightarrow> content list" where
  "update_popularity evs cid cs =
     map (\<lambda>c. if content_id c = cid then c\<lparr>popularity_score := real (event_volume evs cid) * 0.01\<rparr> else c) cs"

text \<open>\<^verbatim>\<open>UPDATE users SET last_active = ? WHERE user_id = ?\<close>\<close>

definition update_last_active :: "int \<Rightarrow> string \<Rightarrow> user list \<Rightarrow> user list" where
  "update_last_active ts uid us =
     map (\<lambda>u. if user_id u = uid then u\<lparr>last_active := Some ts\<rparr> else u) us"

text \<open>
  \<^verbatim>\<open>log_event\<close>; \<open>eid\<close> is the random \<^verbatim>\<open>event_id\<close> and \<open>ts\<close> the \<^verbatim>\<open>datetime.now()\<close>
  of its first two lines.
\<close>

definition log_event :: "string \<Rightarrow> int \<Rightarrow> store \<Rightarrow> event_create \<Rightarrow> store \<times> (error + event_response)" where
  "log_event eid ts s ev =
     (if find (\<lambda>u. user_id u = ec_user_id ev) (users s) = None then (s, Inl NotFound)
      else if find (\<lambda>c. content_id c = ec_content_id ev) (contents s) = None then (s, Inl NotFound)
      else if eid \<in> set (map event_id (events s)) then (s, Inl IntegrityError)
      else
        (let evs = events s @ [\<lparr> event_id = eid, ev_user_id = ec_user_id ev,
                                  ev_content_id = ec_content_id ev, event_type = ec_event_type ev,
                                  ev_value = ec_value ev, session_id = ec_session_id ev,
                                  ev_timestamp = ts \<rparr>]
         in (s\<lparr> events := evs,
                users := update_last_active ts (ec_user_id ev) (users s),
                contents := update_popularity evs (ec_content_id ev) (contents s) \<rparr>,
             Inr \<lparr> resp_event_id = eid, status = ''success'', resp_timestamp = ts \<rparr>)))"

text \<open>
  A run of ingestion requests, each with its drawn id and its time; a failed one leaves
  the store as it was.
\<close>

fun ingest_all :: "store \<Rightarrow> (string \<times> int \<times> event_create) list \<Rightarrow> store" where
  "ingest_all s [] = s"
| "ingest_all s ((eid, ts, ev) # rest) = ingest_all (fst (log_event eid ts s ev)) rest"

text \<open>The popularity of every row of content \<open>cid\<close> is 0.01 times the number of its events.\<close>

definition popularity_synced :: "store \<Rightarrow> string \<Rightarrow> bool" where
  "popularity_synced s cid =
     list_all (\<lambda>c. content_id c = cid \<longrightarrow> popularity_score c = real (event_volume (events s) cid) * 0.01)
       (contents s)"

section \<open>Concrete inputs\<close>

text \<open>
  A runtime whose clock stands at 0, whose random generator draws 0 and whose log ids are
  \<open>a\<close>, \<open>aa\<close>, \<open>aaa\<close>, ...; the user and the content item of the spec's scenario; a
  store that holds just them.
\<close>

definition demo_runtime :: runtime where
  "demo_runtime = \<lparr> clock = (\<lambda>_. 0), random_draw = (\<lambda>_. 0), set_rank = (\<lambda>_ _ _. 0),
                     row_rank = (\<lambda>_. 0), log_ids = (\<lambda>n. replicate (Suc n) CHR ''a'') \<rparr>"

definition demo_user :: user where
  "demo_user = \<lparr> user_id = ''u1'', skill_level = ''novice'', interests = ''python,cloud'',
                  last_active = None \<rparr>"

definition demo_content :: content where
  "demo_content = \<lparr> content_id = ''c1'', title = ''Intro'', content_type = ''video'',
                     difficulty = ''beginner'', tags = ''python,ai'', popularity_score = 0.4,
                     created_at = 0 \<rparr>"

definition demo_store :: store where
  "demo_store = \<lparr> users = [demo_user], contents = [demo_content], events = [],
                   recommendation_logs = [] \<rparr>"

text \<open>
  Any number of distinct tags: the empty string, \<open>x\<close>, \<open>xx\<close>, ...; and a content item
  created 1000 days before the demo clock's time 0.
\<close>

definition many_tags :: "nat \<Rightarrow> string list" where
  "many_tags n = map (\<lambda>i. replicate i CHR ''x'') [0..<n]"

definition demo_old_content :: content where
  "demo_old_content = \<lparr> content_id = ''c2'', title = ''Old'', content_type = ''article'',
                     difficulty = ''advanced'', tags = ''cloud'', popularity_score = 0.2,
                     created_at = - 86400000000000 \<rparr>"

text \<open>
  A second user, a content item that the first user has completed, and a store in which
  the first user has completed \<open>c3\<close> and viewed \<open>c1\<close>, and the second user has viewed
  \<open>c1\<close> and liked \<open>c2\<close>; what the hybrid request of the first user for ten items
  returns and logs there; and a store whose only content item the user has completed.
\<close>

definition demo_peer :: user where
  "demo_peer = \<lparr> user_id = ''u2'', skill_level = ''expert'', interests = ''ai'',
                  last_active = None \<rparr>"

definition demo_done_content :: content where
  "demo_done_content = \<lparr> content_id = ''c3'', title = ''Done'', content_type = ''quiz'',
                     difficulty = ''beginner'', tags = ''python'', popularity_score = 0.9,
                     created_at = 0 \<rparr>"

definition demo_event :: "string \<Rightarrow> string \<Rightarrow> string \<Rightarrow> string \<Rightarrow> event" where
  "demo_event eid uid cid ty = \<lparr> event_id = eid, ev_user_id = uid, ev_content_id = cid,
      event_type = ty, ev_value = None, session_id = None, ev_timestamp = 0 \<rparr>"

definition demo_busy_store :: store where
  "demo_busy_store = \<lparr> users = [demo_user, demo_peer],
      contents = [demo_old_content, demo_done_content, demo_content],
      events = [demo_event ''e1'' ''u1'' ''c3'' ''complete'', demo_event ''e2'' ''u1'' ''c1'' ''view'',
                demo_event ''e3'' ''u2'' ''c1'' ''view'', demo_event ''e4'' ''u2'' ''c2'' ''like''],
      recommendation_logs = [] \<rparr>"

definition demo_busy_recs :: "recommendation list" where
  "demo_busy_recs =
     [\<lparr> rec_content_id = ''c1'', rec_title = ''Intro'', score = 0.56, reason_tags = [''python''],
         rec_difficulty = ''beginner'', rec_content_type = ''video'' \<rparr>,
      \<lparr> rec_content_id = ''c2'', rec_title = ''Old'', score = 0.285,
         reason_tags = [''cloud'', ''popular_with_similar_users''],
         rec_difficulty = ''advanced'', rec_content_type = ''article'' \<rparr>]"

definition demo_busy_logs :: "recommendation_log list" where
  "demo_busy_logs =
     [\<lparr> log_id = ''a'', log_user_id = ''u1'', log_content_id = ''c1'', log_score = 0.56,
         log_model_version = ''v2.0.0'', log_reason_tags = ''python'', clicked = False \<rparr>,
      \<lparr> log_id = ''aa'', log_user_id = ''u1'', log_content_id = ''c2'', log_score = 0.285,
         log_model_version = ''v2.0.0'', log_reason_tags = ''cloud,popular_with_similar_users'',
         clicked = False \<rparr>]"

definition demo_done_store :: store where
  "demo_done_store = \<lparr> users = [demo_user], contents = [demo_done_content],
      events = [demo_event ''e1'' ''u1'' ''c3'' ''complete''], recommendation_logs = [] \<rparr>"

text \<open>
  An ingestion request for a content item that is not in the store and one for \<open>c1\<close>; a
  store in which \<open>c1\<close> has 100 events; three users with one event each on \<open>c1\<close>; and
  a runtime whose database engine enumerates the group of \<open>u2\<close> last.
\<close>

definition demo_missing_request :: event_create where
  "demo_missing_request = \<lparr> ec_user_id = ''u1'', ec_content_id = ''nope'', ec_event_type = ''view'',
      ec_value = None, ec_session_id = None \<rparr>"

definition demo_view_request :: event_create where
  "demo_view_request = \<lparr> ec_user_id = ''u1'', ec_content_id = ''c1'', ec_event_type = ''view'',
      ec_value = None, ec_session_id = Some ''s1'' \<rparr>"

definition demo_crowded_store :: store where
  "demo_crowded_store = \<lparr> users = [demo_user], contents = [demo_content],
      events = map (\<lambda>i. demo_event (replicate i CHR ''e'') ''u1'' ''c1'' ''view'') [0..<100],
      recommendation_logs = [] \<rparr>"

definition demo_tie_events :: "event list" where
  "demo_tie_events = [demo_event ''e1'' ''u1'' ''c1'' ''view'', demo_event ''e2'' ''u2'' ''c1'' ''view'',
                      demo_event ''e3'' ''u3'' ''c1'' ''like'']"

definition demo_other_engine :: runtime where
  "demo_other_engine = demo_runtime\<lparr> row_rank := (\<lambda>p. if p = ''u2'' then 1 else 0) \<rparr>"

text \<open>
  Eleven peers of the user \<open>q\<close> on \<open>c1\<close>: ten with one event each and, last in the
  table, one with two.
\<close>

definition demo_eleven_events :: "event list" where
  "demo_eleven_events =
     [demo_event ''e0'' ''q'' ''c1'' ''view'',
      demo_event ''e1'' ''p0'' ''c1'' ''view'', demo_event ''e2'' ''p1'' ''c1'' ''view'',
      demo_event ''e3'' ''p2'' ''c1'' ''view'', demo_event ''e4'' ''p3'' ''c1'' ''view'',
      demo_event ''e5'' ''p4'' ''c1'' ''view'', demo_event ''e6'' ''p5'' ''c1'' ''view'',
      demo_event ''e7'' ''p6'' ''c1'' ''view'', demo_event ''e8'' ''p7'' ''c1'' ''view'',
      demo_event ''e9'' ''p8'' ''c1'' ''view'', demo_event ''e10'' ''p9'' ''c1'' ''view'',
      demo_event ''e11'' ''s'' ''c1'' ''view'', demo_event ''e12'' ''s'' ''c1'' ''like'']"

section \<open>Bounds on the parts of a score\<close>

lemmas demo_defs = demo_runtime_def demo_user_def demo_content_def demo_store_def

lemma tag_overlap_code:
  "tag_overlap ui ct = length (remdups (filter (\<lambda>t. t \<in> set ct) ui))"
proof -
  have "set ui \<inter> set ct = set (filter (\<lambda>t. t \<in> set ct) ui)"
    by auto
  then show ?thesis
    by (simp add: tag_overlap_def length_remdups_card_conv)
qed

lemmas score_defs = final_score_def decayed_score_def raw_score_def tag_contribution_def
  tag_overlap_code tag_list_def difficulty_match_def difficulty_table_def peer_hit_def
  recency_factor_def days_old_def uniform_def

lemma uniform_jitter_bounds: "0 \<le> uniform 0 0.1 w \<and> uniform 0 0.1 w < 0.1"
proof -
  have "unat w < 2 ^ 53"
    using unsigned_less [of w] by simp
  then have "real (unat w) < 2 ^ 53"
    by (metis of_nat_less_iff of_nat_numeral of_nat_power)
  then have "real (unat w) / 2 ^ 53 < 1"
    by simp
  moreover have "0 \<le> real (unat w) / 2 ^ 53"
    by (rule divide_nonneg_nonneg [OF of_nat_0_le_iff]) simp
  ultimately show ?thesis
    unfolding uniform_def by simp
qed

lemma recency_factor_ge_half: "1 / 2 \<le> recency_factor d"
  by (simp add: recency_factor_def)

lemma tag_contribution_eq: "tag_contribution ui ct = real (tag_overlap ui ct) * 0.3"
  by (simp add: tag_contribution_def)

lemma tag_contribution_nonneg: "0 \<le> tag_contribution ui ct"
  by (simp add: tag_contribution_eq)

lemma difficulty_match_nonneg: "0 \<le> difficulty_match sk d"
  by (simp add: difficulty_match_def difficulty_table_def)

lemma raw_score_nonneg:
  assumes "0 \<le> popularity_score c"
  shows "0 \<le> raw_score rt evs usr strat c"
proof -
  have "0 \<le> difficulty_match (skill_level usr) (difficulty c) * 0.2"
    using difficulty_match_nonneg by simp
  moreover have "0 \<le> popularity_score c * 0.15"
    using assms by simp
  ultimately show ?thesis
    unfolding raw_score_def
    using tag_contribution_nonneg [of "tag_list (interests usr)" "tag_list (tags c)"]
    by simp
qed

lemma decayed_score_nonneg:
  assumes "0 \<le> popularity_score c"
  shows "0 \<le> decayed_score rt evs usr strat i c"
  unfolding decayed_score_def
  using raw_score_nonneg [OF assms] recency_factor_ge_half [of "days_old (clock rt i) (created_at c)"]
  by (intro mult_nonneg_nonneg) auto

lemma final_score_range:
  assumes "0 \<le> popularity_score c"
  shows "0 \<le> final_score rt evs usr strat i c \<and> final_score rt evs usr strat i c \<le> 1"
  unfolding final_score_def
  using decayed_score_nonneg [OF assms, of rt evs usr strat i]
    uniform_jitter_bounds [of "random_draw rt i"]
  by (simp add: min_def)

section \<open>The scenario of the spec\<close>

text \<open>
  Claim C2, as the code computes it. For a user with interests \<open>python,cloud\<close> and skill
  \<open>novice\<close>, a content item with tags \<open>python,ai\<close>, difficulty \<open>beginner\<close> and popularity
  0.4 that is less than a day old, under the strategy content_based: the total before the
  jitter is 0.3 + 0.2 + 0.06 = 0.56 (not 0.36), and the final score lies in [0.56, 0.66],
  whatever the random draw, the events and the other fields are. The interval is closed
  at both ends: the jitter stays below 0.1, but the code's sum of two doubles can round
  to 0.66.
\<close>

theorem scenario_content_based_score:
  assumes "interests usr = ''python,cloud''" and "skill_level usr = ''novice''"
    and "tags c = ''python,ai''" and "difficulty c = ''beginner''"
    and "popularity_score c = 0.4" and "days_old (clock rt i) (created_at c) = 0"
  shows "decayed_score rt evs usr ContentBased i c = 0.56
         \<and> 0.56 \<le> final_score rt evs usr ContentBased i c
         \<and> final_score rt evs usr ContentBased i c \<le> 0.66"
proof -
  have ov: "tag_contribution (tag_list (interests usr)) (tag_list (tags c)) = 0.3"
    using assms(1,3) by (simp add: tag_contribution_def tag_overlap_code tag_list_def)
  have dm: "difficulty_match (skill_level usr) (difficulty c) = 1"
    using assms(2,4) by (simp add: difficulty_match_def difficulty_table_def)
  have raw: "raw_score rt evs usr ContentBased c = 0.56"
    using ov dm assms(5) by (simp add: raw_score_def peer_hit_def)
  have dec: "decayed_score rt evs usr ContentBased i c = 0.56"
    using raw assms(6) by (simp add: decayed_score_def recency_factor_def)
  show ?thesis
    using dec uniform_jitter_bounds [of "random_draw rt i"]
    by (simp add: final_score_def min_def)
qed

theorem scenario_content_based_score_witness:
  "interests demo_user = ''python,cloud'' \<and> skill_level demo_user = ''novice''
   \<and> tags demo_content = ''python,ai'' \<and> difficulty demo_content = ''beginner''
   \<and> popularity_score demo_content = 0.4
   \<and> days_old (clock demo_runtime 0) (created_at demo_content) = 0
   \<and> decayed_score demo_runtime [] demo_user ContentBased 0 demo_content = 0.56
   \<and> 0.56 \<le> final_score demo_runtime [] demo_user ContentBased 0 demo_content
   \<and> final_score demo_runtime [] demo_user ContentBased 0 demo_content \<le> 0.66"
  using scenario_content_based_score [of demo_user demo_content demo_runtime 0 "[]"]
  by (simp add: demo_defs days_old_def)

text \<open>
  The scenario with the random draw 0: the score is 0.56, outside the interval
  [0.36, 0.46] that claim C2 states.
\<close>

theorem scenario_score_above_stated_range:
  "final_score demo_runtime [] demo_user ContentBased 0 demo_content = 0.56
   \<and> \<not> (0.36 \<le> final_score demo_runtime [] demo_user ContentBased 0 demo_content
          \<and> final_score demo_runtime [] demo_user ContentBased 0 demo_content \<le> 0.46)"
  by (simp add: demo_defs score_defs)

lemma distinct_many_tags: "distinct (many_tags n)"
  unfolding many_tags_def
  by (rule iffD2 [OF distinct_map]) (auto intro!: inj_onI dest: arg_cong [where f = length])

lemma tag_overlap_many_tags: "tag_overlap (many_tags n) (many_tags n) = n"
proof -
  have "card (set (many_tags n)) = length (many_tags n)"
    using distinct_many_tags by (rule distinct_card)
  then show ?thesis
    by (simp add: tag_overlap_def many_tags_def)
qed

lemma tag_contribution_many_tags: "tag_contribution (many_tags n) (many_tags n) = real n * 0.3"
  by (simp add: tag_contribution_eq tag_overlap_many_tags)

section \<open>The tag-overlap contribution\<close>

text \<open>
  Claim C3, as the code computes it. The tag-overlap contribution is 0.3 times the number
  of distinct tags that the user's interests and the content's tags share, with no cap:
  no bound holds for every user and content item, since for every bound there are
  interests and tags whose contribution exceeds it. (Only the final score is capped, by
  \<^verbatim>\<open>min(score, 1.0)\<close>.)
\<close>

theorem tag_contribution_uncapped:
  "tag_contribution ui ct = real (card (set ui \<inter> set ct)) * 0.3
   \<and> (\<forall>B. \<exists>ui' ct'. B < tag_contribution ui' ct')"
proof
  show "tag_contribution ui ct = real (card (set ui \<inter> set ct)) * 0.3"
    by (simp add: tag_contribution_eq tag_overlap_def)
  show "\<forall>B. \<exists>ui' ct'. B < tag_contribution ui' ct'"
  proof
    fix B :: real
    obtain n :: nat where n: "B / 0.3 < real n"
      using reals_Archimedean2 by blast
    then have "B < real n * 0.3"
      by (simp add: field_simps)
    then have "B < tag_contribution (many_tags n) (many_tags n)"
      by (simp add: tag_contribution_many_tags)
    then show "\<exists>ui' ct'. B < tag_contribution ui' ct'"
      by blast
  qed
qed

text \<open>
  Against claim C3 as stated: four shared tags contribute 1.2; no cap \<open>N\<close> makes the
  contribution \<open>min(overlap, N) * 0.3\<close> for all inputs; and no bound holds for all inputs.
\<close>

theorem tag_contribution_no_fixed_cap:
  "tag_contribution [''a'', ''b'', ''c'', ''d''] [''a'', ''b'', ''c'', ''d''] = 1.2
   \<and> \<not> (\<exists>N. \<forall>ui ct. tag_contribution ui ct = real (min (tag_overlap ui ct) N) * 0.3)
   \<and> \<not> (\<exists>B. \<forall>ui ct. tag_contribution ui ct \<le> B)"
proof (intro conjI)
  show "tag_contribution [''a'', ''b'', ''c'', ''d''] [''a'', ''b'', ''c'', ''d''] = 1.2"
    by (simp add: tag_contribution_def tag_overlap_code)
  show "\<not> (\<exists>N. \<forall>ui ct. tag_contribution ui ct = real (min (tag_overlap ui ct) N) * 0.3)"
  proof
    assume "\<exists>N. \<forall>ui ct. tag_contribution ui ct = real (min (tag_overlap ui ct) N) * 0.3"
    then obtain N where
      "\<forall>ui ct. tag_contribution ui ct = real (min (tag_overlap ui ct) N) * 0.3" ..
    then have "tag_contribution (many_tags (Suc N)) (many_tags (Suc N))
                 = real (min (tag_overlap (many_tags (Suc N)) (many_tags (Suc N))) N) * 0.3"
      by blast
    then show False
      by (simp add: tag_contribution_many_tags tag_overlap_many_tags)
  qed
  show "\<not> (\<exists>B. \<forall>ui ct. tag_contribution ui ct \<le> B)"
  proof
    assume "\<exists>B. \<forall>ui ct. tag_contribution ui ct \<le> B"
    then obtain B where B: "\<forall>ui ct. tag_contribution ui ct \<le> B" ..
    obtain n :: nat where "B / 0.3 < real n"
      using reals_Archimedean2 by blast
    then have "B < real n * 0.3"
      by (simp add: field_simps)
    moreover have "tag_contribution (many_tags n) (many_tags n) \<le> B"
      using B by blast
    ultimately show False
      by (simp add: tag_contribution_many_tags)
  qed
qed

section \<open>Recency decay\<close>

text \<open>
  Claim C4. The score after the decay is the sum of the four contributions (tag overlap,
  difficulty, popularity, peer affinity) times \<open>max(0.5, 1 - days_old / 365)\<close>, and the
  jitter is added afterwards. The factor is at least one half. So for a content item with
  non-negative popularity the decayed score is at least half the score before the decay,
  whatever the age; from 183 days on (1000 days, say) it is exactly half.
\<close>

theorem recency_decay_floor:
  "decayed_score rt evs usr strat i c =
     (tag_contribution (tag_list (interests usr)) (tag_list (tags c))
      + difficulty_match (skill_level usr) (difficulty c) * 0.2
      + popularity_score c * 0.15
      + (if peer_hit rt evs (user_id usr) strat (content_id c) then 0.2 else 0))
     * max 0.5 (1.0 - real_of_int (days_old (clock rt i) (created_at c)) / 365)
   \<and> final_score rt evs usr strat i c =
       min (decayed_score rt evs usr strat i c + uniform 0 0.1 (random_draw rt i)) 1.0
   \<and> 1 / 2 \<le> recency_factor (days_old (clock rt i) (created_at c))
   \<and> (0 \<le> popularity_score c \<longrightarrow>
        raw_score rt evs usr strat c / 2 \<le> decayed_score rt evs usr strat i c)
   \<and> (183 \<le> days_old (clock rt i) (created_at c) \<longrightarrow>
        decayed_score rt evs usr strat i c = raw_score rt evs usr strat c / 2)"
proof (intro conjI impI)
  show "decayed_score rt evs usr strat i c =
     (tag_contribution (tag_list (interests usr)) (tag_list (tags c))
      + difficulty_match (skill_level usr) (difficulty c) * 0.2
      + popularity_score c * 0.15
      + (if peer_hit rt evs (user_id usr) strat (content_id c) then 0.2 else 0))
     * max 0.5 (1.0 - real_of_int (days_old (clock rt i) (created_at c)) / 365)"
    by (simp only: decayed_score_def raw_score_def recency_factor_def)
  show "final_score rt evs usr strat i c =
       min (decayed_score rt evs usr strat i c + uniform 0 0.1 (random_draw rt i)) 1.0"
    by (simp only: final_score_def)
  show "1 / 2 \<le> recency_factor (days_old (clock rt i) (created_at c))"
    by (rule recency_factor_ge_half)
next
  assume "0 \<le> popularity_score c"
  then have "0 \<le> raw_score rt evs usr strat c"
    by (rule raw_score_nonneg)
  then have "raw_score rt evs usr strat c * (1 / 2)
               \<le> raw_score rt evs usr strat c * recency_factor (days_old (clock rt i) (created_at c))"
    using recency_factor_ge_half by (intro mult_left_mono) auto
  then show "raw_score rt evs usr strat c / 2 \<le> decayed_score rt evs usr strat i c"
    by (simp add: decayed_score_def)
next
  assume old: "183 \<le> days_old (clock rt i) (created_at c)"
  then have "real_of_int 183 \<le> real_of_int (days_old (clock rt i) (created_at c))"
    by (simp only: of_int_le_iff)
  then have "recency_factor (days_old (clock rt i) (created_at c)) = 1 / 2"
    by (simp add: recency_factor_def max_def)
  then show "decayed_score rt evs usr strat i c = raw_score rt evs usr strat c / 2"
    by (simp add: decayed_score_def)
qed

theorem recency_decay_floor_witness:
  "days_old (clock demo_runtime 0) (created_at demo_old_content) = 1000
   \<and> 0 \<le> popularity_score demo_old_content
   \<and> raw_score demo_runtime [] demo_user Hybrid demo_old_content = 0.37
   \<and> decayed_score demo_runtime [] demo_user Hybrid 0 demo_old_content = 0.185
   \<and> final_score demo_runtime [] demo_user Hybrid 0 demo_old_content = 0.185"
  using recency_decay_floor [of demo_runtime "[]" demo_user Hybrid 0 demo_old_content]
  by (simp add: demo_defs demo_old_content_def score_defs peer_affinity_def similar_users_def
      peer_groups_def join_rows_def)

section \<open>The request pipeline\<close>

lemma already_completed_iff:
  "already_completed evs uid cid \<longleftrightarrow>
     (\<exists>e\<in>set evs. ev_user_id e = uid \<and> ev_content_id e = cid \<and> event_type e = ''complete'')"
proof -
  have "interaction_count evs uid cid ''complete'' \<noteq> 0 \<longleftrightarrow>
          (\<exists>e\<in>set evs. ev_user_id e = uid \<and> ev_content_id e = cid \<and> event_type e = ''complete'')"
    by (auto simp: interaction_count_def filter_empty_conv)
  moreover have "interaction_count evs uid cid ''complete'' \<noteq> 0 \<Longrightarrow>
          filter (\<lambda>e. ev_user_id e = uid \<and> ev_content_id e = cid) evs \<noteq> []"
    by (auto simp: interaction_count_def filter_empty_conv)
  ultimately show ?thesis
    unfolding already_completed_def user_history_def by auto
qed

lemma score_all_members:
  "r \<in> set (score_all rt evs usr strat i cs) \<Longrightarrow>
     \<exists>c\<in>set cs. \<exists>j. r = score_candidate rt evs usr strat j c
        \<and> \<not> already_completed evs (user_id usr) (content_id c)"
  by (induction cs arbitrary: i) (auto split: if_splits)

lemma score_all_content_ids:
  "map rec_content_id (score_all rt evs usr strat i cs) =
     map content_id (filter (\<lambda>c. \<not> already_completed evs (user_id usr) (content_id c)) cs)"
  by (induction cs arbitrary: i) (simp_all add: score_candidate_def)

lemma length_score_all:
  "length (score_all rt evs usr strat i cs) =
     length (filter (\<lambda>c. \<not> already_completed evs (user_id usr) (content_id c)) cs)"
  using arg_cong [OF score_all_content_ids, where f = length] by simp

lemma sort_by_score_descending: "sorted_wrt (\<lambda>a b. score b \<le> score a) (sort_by_score recs)"
proof -
  have "sorted (map (\<lambda>r. - score r) (sort_key (\<lambda>r. - score r) recs))"
    by (rule sorted_sort_key)
  then show ?thesis
    by (simp add: sort_by_score_def sorted_wrt_map)
qed

lemma sort_by_score_stable:
  "filter (\<lambda>r. score r = x) (sort_by_score recs) = filter (\<lambda>r. score r = x) recs"
proof -
  have "filter (\<lambda>r. - score r = - x) (sort_key (\<lambda>r. - score r) recs)
          = filter (\<lambda>r. - score r = - x) recs"
    by (rule sort_key_stable)
  then show ?thesis
    by (simp add: sort_by_score_def)
qed

lemma set_sort_by_score: "set (sort_by_score recs) = set recs"
  by (simp add: sort_by_score_def)

lemma length_sort_by_score: "length (sort_by_score recs) = length recs"
  by (simp add: sort_by_score_def)

lemma log_recommendations_appends:
  "log_recommendations rt uid j rs logs = Inr logs' \<Longrightarrow>
     \<exists>new. logs' = logs @ new
       \<and> map log_score new = map score rs
       \<and> map log_content_id new = map rec_content_id rs
       \<and> map log_reason_tags new = map (\<lambda>r. join_comma (reason_tags r)) rs
       \<and> map log_user_id new = map (\<lambda>r. uid) rs
       \<and> map log_model_version new = map (\<lambda>r. ''v2.0.0'') rs"
proof (induction rs arbitrary: j logs)
  case Nil
  then show ?case by simp
next
  case (Cons r rs)
  let ?l = "\<lparr> log_id = log_ids rt j, log_user_id = uid, log_content_id = rec_content_id r,
              log_score = score r, log_model_version = ''v2.0.0'',
              log_reason_tags = join_comma (reason_tags r), clicked = False \<rparr>"
  from Cons.prems have rest: "log_recommendations rt uid (Suc j) rs (logs @ [?l]) = Inr logs'"
    by (simp split: if_splits)
  from Cons.IH [OF rest] obtain new where new: "logs' = (logs @ [?l]) @ new"
      "map log_score new = map score rs"
      "map log_content_id new = map rec_content_id rs"
      "map log_reason_tags new = map (\<lambda>r. join_comma (reason_tags r)) rs"
      "map log_user_id new = map (\<lambda>r. uid) rs"
      "map log_model_version new = map (\<lambda>r. ''v2.0.0'') rs"
    by blast
  show ?case
  proof (intro exI conjI)
    show "logs' = logs @ (?l # new)" using new(1) by simp
  qed (simp_all add: new)
qed

lemma get_recommendations_Inr:
  assumes "get_recommendations rt s uid k strat = (s', Inr resp)"
  shows "1 \<le> k \<and> k \<le> 50
     \<and> (\<exists>usr. find (\<lambda>u. user_id u = uid) (users s) = Some usr
           \<and> recommendations resp =
               take (nat k) (sort_by_score (score_all rt (events s) usr strat 0 (contents s))))
     \<and> log_recommendations rt uid 0 (recommendations resp) (recommendation_logs s)
           = Inr (recommendation_logs s')
     \<and> users s' = users s \<and> contents s' = contents s \<and> events s' = events s"
  using assms unfolding get_recommendations_def
  by (auto simp: Let_def split: if_splits option.splits sum.splits)

lemma find_user_id: "find (\<lambda>u. user_id u = uid) us = Some usr \<Longrightarrow> user_id usr = uid \<and> usr \<in> set us"
  by (auto simp: find_Some_iff)

lemmas busy_defs = demo_busy_store_def demo_peer_def demo_done_content_def demo_old_content_def
  demo_event_def demo_busy_recs_def demo_busy_logs_def

lemma demo_busy_request:
  "get_recommendations demo_runtime demo_busy_store ''u1'' 10 Hybrid =
     (demo_busy_store\<lparr>recommendation_logs := demo_busy_logs\<rparr>,
      Inr \<lparr> resp_user_id = ''u1'', recommendations = demo_busy_recs,
            model_version = ''v2.0.0'', resp_strategy = Hybrid \<rparr>)"
  by (simp add: get_recommendations_def demo_defs busy_defs score_candidate_def score_defs
      already_completed_def user_history_def interaction_count_def found_tags_def tag_reasons_def
      overlap_list_def peer_affinity_def similar_users_def peer_groups_def join_rows_def
      common_items_def liked_or_completed_def sort_by_score_def)

lemmas request_defs = get_recommendations_def score_candidate_def score_defs
      already_completed_def user_history_def interaction_count_def found_tags_def tag_reasons_def
      overlap_list_def peer_affinity_def similar_users_def peer_groups_def join_rows_def
      common_items_def liked_or_completed_def sort_by_score_def

lemma demo_done_request:
  "get_recommendations demo_runtime demo_done_store ''u1'' 5 ContentBased =
     (demo_done_store,
      Inr \<lparr> resp_user_id = ''u1'', recommendations = [],
            model_version = ''v2.0.0'', resp_strategy = ContentBased \<rparr>)"
  by (simp add: request_defs demo_defs busy_defs demo_done_store_def)

lemma score_candidate_range:
  assumes "0 \<le> popularity_score c"
  shows "0 \<le> score (score_candidate rt evs usr strat i c)
         \<and> score (score_candidate rt evs usr strat i c) \<le> 1"
  using final_score_range [OF assms] by (simp add: score_candidate_def)

section \<open>Scores lie in the unit interval\<close>

text \<open>
  Claim C1. When a recommendation request returns a response and every content item of the
  store has a non-negative popularity, every returned recommendation has a score in
  [0, 1], and the request appends one log entry per returned recommendation, in order,
  with that recommendation's content id and score, so every logged score lies in [0, 1]
  too.
\<close>

theorem recommendation_scores_in_unit_interval:
  assumes "get_recommendations rt s uid k strat = (s', Inr resp)"
    and "\<forall>c\<in>set (contents s). 0 \<le> popularity_score c"
  shows "(\<forall>r\<in>set (recommendations resp). 0 \<le> score r \<and> score r \<le> 1)
     \<and> (\<exists>new. recommendation_logs s' = recommendation_logs s @ new
           \<and> map log_score new = map score (recommendations resp)
           \<and> map log_content_id new = map rec_content_id (recommendations resp)
           \<and> (\<forall>l\<in>set new. 0 \<le> log_score l \<and> log_score l \<le> 1))"
proof -
  from get_recommendations_Inr [OF assms(1)] obtain usr where
    top: "recommendations resp =
            take (nat k) (sort_by_score (score_all rt (events s) usr strat 0 (contents s)))"
    and logged: "log_recommendations rt uid 0 (recommendations resp) (recommendation_logs s)
                   = Inr (recommendation_logs s')"
    by blast
  have range: "0 \<le> score r \<and> score r \<le> 1" if "r \<in> set (recommendations resp)" for r
  proof -
    from that top have "r \<in> set (sort_by_score (score_all rt (events s) usr strat 0 (contents s)))"
      by (auto dest: in_set_takeD)
    then have "r \<in> set (score_all rt (events s) usr strat 0 (contents s))"
      by (simp add: set_sort_by_score)
    then obtain c j where "c \<in> set (contents s)"
      and "r = score_candidate rt (events s) usr strat j c"
      using score_all_members by blast
    then show ?thesis
      using assms(2) score_candidate_range by blast
  qed
  from log_recommendations_appends [OF logged] obtain new where
    new: "recommendation_logs s' = recommendation_logs s @ new"
      "map log_score new = map score (recommendations resp)"
      "map log_content_id new = map rec_content_id (recommendations resp)"
    by blast
  have "0 \<le> log_score l \<and> log_score l \<le> 1" if "l \<in> set new" for l
  proof -
    from that have "log_score l \<in> set (map log_score new)"
      by simp
    then have "log_score l \<in> set (map score (recommendations resp))"
      by (simp only: new(2))
    then show ?thesis
      using range by auto
  qed
  with range new show ?thesis
    by blast
qed

theorem recommendation_scores_in_unit_interval_witness:
  "get_recommendations demo_runtime demo_busy_store ''u1'' 10 Hybrid =
     (demo_busy_store\<lparr>recommendation_logs := demo_busy_logs\<rparr>,
      Inr \<lparr> resp_user_id = ''u1'', recommendations = demo_busy_recs,
            model_version = ''v2.0.0'', resp_strategy = Hybrid \<rparr>)
   \<and> list_all (\<lambda>c. 0 \<le> popularity_score c) (contents demo_busy_store)
   \<and> map score demo_busy_recs = [0.56, 0.285]
   \<and> list_all (\<lambda>r. 0 \<le> score r \<and> score r \<le> 1) demo_busy_recs
   \<and> map log_score demo_busy_logs = map score demo_busy_recs
   \<and> list_all (\<lambda>l. 0 \<le> log_score l \<and> log_score l \<le> 1) demo_busy_logs"
proof -
  have pop: "\<forall>c\<in>set (contents demo_busy_store). 0 \<le> popularity_score c"
    by (simp add: busy_defs demo_defs)
  from recommendation_scores_in_unit_interval [OF demo_busy_request pop]
  have "list_all (\<lambda>r. 0 \<le> score r \<and> score r \<le> 1) demo_busy_recs"
    by (simp add: list_all_iff)
  moreover have "list_all (\<lambda>l. 0 \<le> log_score l \<and> log_score l \<le> 1) demo_busy_logs"
    using recommendation_scores_in_unit_interval [OF demo_busy_request pop]
    by (auto simp: list_all_iff demo_busy_store_def)
  ultimately show ?thesis
    using demo_busy_request pop by (simp add: list_all_iff demo_busy_recs_def demo_busy_logs_def)
qed

section \<open>The ranked output\<close>

lemma sorted_take_over_drop:
  fixes f :: "'a \<Rightarrow> 'b :: order"
  assumes "sorted_wrt (\<lambda>a b. f b \<le> f a) xs"
  shows "\<forall>r\<in>set (take n xs). \<forall>q\<in>set (drop n xs). f q \<le> f r"
proof -
  have "sorted_wrt (\<lambda>a b. f b \<le> f a) (take n xs @ drop n xs)"
    using assms by simp
  then show ?thesis
    unfolding sorted_wrt_append by blast
qed

lemma demo_busy_request_one:
  "get_recommendations demo_runtime demo_busy_store ''u1'' 1 Hybrid =
     (demo_busy_store\<lparr>recommendation_logs := take 1 demo_busy_logs\<rparr>,
      Inr \<lparr> resp_user_id = ''u1'', recommendations = take 1 demo_busy_recs,
            model_version = ''v2.0.0'', resp_strategy = Hybrid \<rparr>)"
  by (simp add: request_defs demo_defs busy_defs)

text \<open>
  Claim C5. A request that returns a response had \<open>1 \<le> k \<le> 50\<close> and an existing user.
  The returned list is sorted by descending score; no returned item is one for which the
  events hold a \<open>complete\<close> event of the user; its length is the minimum of \<open>k\<close> and the
  number of content items the user has not completed; it is empty when the user has
  completed every item. It is the first \<open>k\<close> entries of the ranking of all scored
  candidates (one per content item the user has not completed): that ranking is sorted by
  descending score, and the candidates of any one score stand in it in the order in which
  they were enumerated (the sort is stable). So no candidate left out has a higher score
  than a returned one.
\<close>

theorem ranked_output_sorted_filtered_truncated:
  assumes "get_recommendations rt s uid k strat = (s', Inr resp)"
  shows "1 \<le> k \<and> k \<le> 50
     \<and> sorted_wrt (\<lambda>a b. score b \<le> score a) (recommendations resp)
     \<and> (\<forall>r\<in>set (recommendations resp).
           \<not> (\<exists>e\<in>set (events s). ev_user_id e = uid \<and> ev_content_id e = rec_content_id r
                  \<and> event_type e = ''complete''))
     \<and> length (recommendations resp) =
           min (nat k) (length (filter (\<lambda>c. \<not> already_completed (events s) uid (content_id c))
                                       (contents s)))
     \<and> ((\<forall>c\<in>set (contents s). already_completed (events s) uid (content_id c))
           \<longrightarrow> recommendations resp = [])
     \<and> (\<exists>usr ranked. find (\<lambda>u. user_id u = uid) (users s) = Some usr
           \<and> recommendations resp = take (nat k) ranked
           \<and> sorted_wrt (\<lambda>a b. score b \<le> score a) ranked
           \<and> (\<forall>x. filter (\<lambda>r. score r = x) ranked
                    = filter (\<lambda>r. score r = x) (score_all rt (events s) usr strat 0 (contents s)))
           \<and> set ranked = set (score_all rt (events s) usr strat 0 (contents s))
           \<and> length ranked = length (score_all rt (events s) usr strat 0 (contents s))
           \<and> map rec_content_id (score_all rt (events s) usr strat 0 (contents s))
               = map content_id (filter (\<lambda>c. \<not> already_completed (events s) uid (content_id c))
                                        (contents s))
           \<and> (\<forall>r\<in>set (recommendations resp). \<forall>q\<in>set (drop (nat k) ranked). score q \<le> score r))"
proof -
  from get_recommendations_Inr [OF assms] obtain usr where
    k: "1 \<le> k" "k \<le> 50"
    and usr: "find (\<lambda>u. user_id u = uid) (users s) = Some usr"
    and top: "recommendations resp =
            take (nat k) (sort_by_score (score_all rt (events s) usr strat 0 (contents s)))"
    by blast
  let ?all = "score_all rt (events s) usr strat 0 (contents s)"
  have uid: "user_id usr = uid"
    using find_user_id [OF usr] by simp
  have sorted: "sorted_wrt (\<lambda>a b. score b \<le> score a) (recommendations resp)"
    unfolding top by (rule sorted_wrt_take [OF sort_by_score_descending])
  have excl: "\<not> (\<exists>e\<in>set (events s). ev_user_id e = uid \<and> ev_content_id e = rec_content_id r
                  \<and> event_type e = ''complete'')"
    if "r \<in> set (recommendations resp)" for r
  proof -
    from that top have "r \<in> set ?all"
      by (auto dest: in_set_takeD simp: set_sort_by_score)
    then obtain c j where "r = score_candidate rt (events s) usr strat j c"
      and "\<not> already_completed (events s) (user_id usr) (content_id c)"
      using score_all_members by blast
    then have "\<not> already_completed (events s) uid (rec_content_id r)"
      by (simp add: score_candidate_def uid)
    then show ?thesis
      by (simp add: already_completed_iff)
  qed
  have len: "length (recommendations resp) =
           min (nat k) (length (filter (\<lambda>c. \<not> already_completed (events s) uid (content_id c))
                                       (contents s)))"
    unfolding top using length_score_all [of rt "events s" usr strat 0 "contents s"]
    by (simp add: length_sort_by_score uid min.commute)
  have empty: "recommendations resp = []"
    if "\<forall>c\<in>set (contents s). already_completed (events s) uid (content_id c)"
  proof -
    from that have "filter (\<lambda>c. \<not> already_completed (events s) uid (content_id c)) (contents s) = []"
      by (simp add: filter_empty_conv)
    with len show ?thesis by simp
  qed
  have stable: "\<forall>x. filter (\<lambda>r. score r = x) (sort_by_score ?all) = filter (\<lambda>r. score r = x) ?all"
    by (simp add: sort_by_score_stable)
  have ranked_sorted: "sorted_wrt (\<lambda>a b. score b \<le> score a) (sort_by_score ?all)"
    by (rule sort_by_score_descending)
  have ids: "map rec_content_id ?all
               = map content_id (filter (\<lambda>c. \<not> already_completed (events s) uid (content_id c))
                                        (contents s))"
    using score_all_content_ids [of rt "events s" usr strat 0 "contents s"] by (simp add: uid)
  have above: "\<forall>r\<in>set (recommendations resp). \<forall>q\<in>set (drop (nat k) (sort_by_score ?all)).
                 score q \<le> score r"
    unfolding top by (rule sorted_take_over_drop [OF ranked_sorted])
  have ranking: "\<exists>usr ranked. find (\<lambda>u. user_id u = uid) (users s) = Some usr
           \<and> recommendations resp = take (nat k) ranked
           \<and> sorted_wrt (\<lambda>a b. score b \<le> score a) ranked
           \<and> (\<forall>x. filter (\<lambda>r. score r = x) ranked
                    = filter (\<lambda>r. score r = x) (score_all rt (events s) usr strat 0 (contents s)))
           \<and> set ranked = set (score_all rt (events s) usr strat 0 (contents s))
           \<and> length ranked = length (score_all rt (events s) usr strat 0 (contents s))
           \<and> map rec_content_id (score_all rt (events s) usr strat 0 (contents s))
               = map content_id (filter (\<lambda>c. \<not> already_completed (events s) uid (content_id c))
                                        (contents s))
           \<and> (\<forall>r\<in>set (recommendations resp). \<forall>q\<in>set (drop (nat k) ranked). score q \<le> score r)"
    using usr top ranked_sorted stable set_sort_by_score [of ?all] length_sort_by_score [of ?all]
      ids above
    by blast
  from k sorted excl len empty ranking show ?thesis
    by blast
qed

theorem ranked_output_sorted_filtered_truncated_witness:
  "get_recommendations demo_runtime demo_busy_store ''u1'' 10 Hybrid =
     (demo_busy_store\<lparr>recommendation_logs := demo_busy_logs\<rparr>,
      Inr \<lparr> resp_user_id = ''u1'', recommendations = demo_busy_recs,
            model_version = ''v2.0.0'', resp_strategy = Hybrid \<rparr>)
   \<and> map rec_content_id demo_busy_recs = [''c1'', ''c2'']
   \<and> map content_id (filter (\<lambda>c. \<not> already_completed (events demo_busy_store) ''u1'' (content_id c))
                           (contents demo_busy_store)) = [''c2'', ''c1'']
   \<and> sorted_wrt (\<lambda>a b. score b \<le> score a) demo_busy_recs
   \<and> length demo_busy_recs = min (nat 10) 2
   \<and> get_recommendations demo_runtime demo_busy_store ''u1'' 1 Hybrid =
       (demo_busy_store\<lparr>recommendation_logs := take 1 demo_busy_logs\<rparr>,
        Inr \<lparr> resp_user_id = ''u1'', recommendations = take 1 demo_busy_recs,
              model_version = ''v2.0.0'', resp_strategy = Hybrid \<rparr>)
   \<and> map rec_content_id (take 1 demo_busy_recs) = [''c1'']
   \<and> map score (take 1 demo_busy_recs) = [0.56]
   \<and> length (take 1 demo_busy_recs) = min (nat 1) 2
   \<and> get_recommendations demo_runtime demo_done_store ''u1'' 5 ContentBased =
       (demo_done_store,
        Inr \<lparr> resp_user_id = ''u1'', recommendations = [],
              model_version = ''v2.0.0'', resp_strategy = ContentBased \<rparr>)
   \<and> list_all (\<lambda>c. already_completed (events demo_done_store) ''u1'' (content_id c))
         (contents demo_done_store)"
proof -
  have finished: "\<forall>c\<in>set (contents demo_done_store).
                already_completed (events demo_done_store) ''u1'' (content_id c)"
    by (simp add: demo_done_store_def busy_defs already_completed_def user_history_def
        interaction_count_def)
  have elig: "map content_id (filter (\<lambda>c. \<not> already_completed (events demo_busy_store) ''u1'' (content_id c))
                           (contents demo_busy_store)) = [''c2'', ''c1'']"
    by (simp add: busy_defs demo_defs already_completed_def user_history_def interaction_count_def)
  have "sorted_wrt (\<lambda>a b. score b \<le> score a) demo_busy_recs
        \<and> length demo_busy_recs = min (nat 10) 2"
    using ranked_output_sorted_filtered_truncated [OF demo_busy_request]
      arg_cong [OF elig, where f = length]
    by simp
  moreover have "length (take 1 demo_busy_recs) = min (nat 1) 2"
    using ranked_output_sorted_filtered_truncated [OF demo_busy_request_one]
      arg_cong [OF elig, where f = length]
    by simp
  moreover have "recommendations \<lparr> resp_user_id = ''u1'', recommendations = [],
              model_version = ''v2.0.0'', resp_strategy = ContentBased \<rparr> = []"
    using ranked_output_sorted_filtered_truncated [OF demo_done_request] finished by blast
  ultimately show ?thesis
    using demo_busy_request demo_busy_request_one demo_done_request finished elig
    by (simp add: list_all_iff demo_busy_recs_def)
qed

section \<open>Reason tags\<close>

lemma length_tag_reasons: "length (tag_reasons rt ui ct) \<le> 2"
  by (simp add: tag_reasons_def)

lemma set_tag_reasons: "set (tag_reasons rt ui ct) \<subseteq> set ui \<inter> set ct"
proof -
  have "set (take 2 (overlap_list rt ui ct)) \<subseteq> set (overlap_list rt ui ct)"
    by (rule set_take_subset)
  also have "set (overlap_list rt ui ct) = set ui \<inter> set ct"
    by (auto simp: overlap_list_def)
  finally show ?thesis
    by (auto simp: tag_reasons_def)
qed

lemma tag_reasons_nonempty: "0 < tag_overlap ui ct \<Longrightarrow> tag_reasons rt ui ct \<noteq> []"
proof -
  assume pos: "0 < tag_overlap ui ct"
  then have "remdups (filter (\<lambda>t. t \<in> set ct) ui) \<noteq> []"
    by (auto simp: tag_overlap_code)
  then have "length (overlap_list rt ui ct) \<noteq> 0"
    by (simp add: overlap_list_def)
  then show ?thesis
    using pos by (simp add: tag_reasons_def)
qed

text \<open>
  Claim C8. Every returned recommendation has between one and three reason tags. They are
  at most two of the tags that the user's interests and the content's tags share (none
  exactly when they share none), followed by \<open>popular_with_similar_users\<close> when the peer
  check fired; when that list is empty the single tag \<open>recommended_for_you\<close> stands in.
  The cut to three entries never removes a tag. The log entry of a recommendation holds
  its reason tags joined by commas.
\<close>

theorem reason_tags_shape:
  assumes "get_recommendations rt s uid k strat = (s', Inr resp)"
    and "r \<in> set (recommendations resp)"
  shows "reason_tags r \<noteq> [] \<and> length (reason_tags r) \<le> 3
     \<and> (\<exists>usr c. find (\<lambda>u. user_id u = uid) (users s) = Some usr \<and> c \<in> set (contents s)
           \<and> rec_content_id r = content_id c
           \<and> (let overlap = tag_reasons rt (tag_list (interests usr)) (tag_list (tags c));
                   peer = (if peer_hit rt (events s) uid strat (content_id c)
                           then [''popular_with_similar_users''] else [])
               in length overlap \<le> 2
                  \<and> set overlap \<subseteq> set (tag_list (interests usr)) \<inter> set (tag_list (tags c))
                  \<and> (overlap = [] \<longleftrightarrow> tag_overlap (tag_list (interests usr)) (tag_list (tags c)) = 0)
                  \<and> reason_tags r = (if overlap @ peer = [] then [''recommended_for_you'']
                                      else overlap @ peer)))
     \<and> (\<exists>new. recommendation_logs s' = recommendation_logs s @ new
           \<and> map log_reason_tags new = map (\<lambda>r. join_comma (reason_tags r)) (recommendations resp))"
proof -
  from get_recommendations_Inr [OF assms(1)] obtain usr where
    usr: "find (\<lambda>u. user_id u = uid) (users s) = Some usr"
    and top: "recommendations resp =
            take (nat k) (sort_by_score (score_all rt (events s) usr strat 0 (contents s)))"
    and logged: "log_recommendations rt uid 0 (recommendations resp) (recommendation_logs s)
                   = Inr (recommendation_logs s')"
    by blast
  have uid: "user_id usr = uid"
    using find_user_id [OF usr] by simp
  from assms(2) top have "r \<in> set (score_all rt (events s) usr strat 0 (contents s))"
    by (auto dest: in_set_takeD simp: set_sort_by_score)
  then obtain c j where c: "c \<in> set (contents s)"
    and r: "r = score_candidate rt (events s) usr strat j c"
    using score_all_members by blast
  let ?overlap = "tag_reasons rt (tag_list (interests usr)) (tag_list (tags c))"
  let ?peer = "if peer_hit rt (events s) uid strat (content_id c)
               then [''popular_with_similar_users''] else []"
  have ft: "found_tags rt (events s) usr strat c = ?overlap @ ?peer"
    by (simp add: found_tags_def uid)
  have l2: "length ?overlap \<le> 2"
    by (rule length_tag_reasons)
  have l3: "length (?overlap @ ?peer) \<le> 3"
    using l2 by simp
  have rt_eq: "reason_tags r = (if ?overlap @ ?peer = [] then [''recommended_for_you'']
                               else ?overlap @ ?peer)"
    using l3 unfolding r score_candidate_def ft by simp
  have ne: "reason_tags r \<noteq> []"
    unfolding rt_eq by simp
  have le: "length (reason_tags r) \<le> 3"
    unfolding rt_eq using l3 by simp
  have emp: "?overlap = [] \<longleftrightarrow> tag_overlap (tag_list (interests usr)) (tag_list (tags c)) = 0"
    using tag_reasons_nonempty [of "tag_list (interests usr)" "tag_list (tags c)" rt]
    by (auto simp: tag_reasons_def)
  have shape: "\<exists>usr c. find (\<lambda>u. user_id u = uid) (users s) = Some usr \<and> c \<in> set (contents s)
           \<and> rec_content_id r = content_id c
           \<and> (let overlap = tag_reasons rt (tag_list (interests usr)) (tag_list (tags c));
                   peer = (if peer_hit rt (events s) uid strat (content_id c)
                           then [''popular_with_similar_users''] else [])
               in length overlap \<le> 2
                  \<and> set overlap \<subseteq> set (tag_list (interests usr)) \<inter> set (tag_list (tags c))
                  \<and> (overlap = [] \<longleftrightarrow> tag_overlap (tag_list (interests usr)) (tag_list (tags c)) = 0)
                  \<and> reason_tags r = (if overlap @ peer = [] then [''recommended_for_you'']
                                      else overlap @ peer))"
  proof (intro exI conjI)
    show "find (\<lambda>u. user_id u = uid) (users s) = Some usr" by (rule usr)
    show "c \<in> set (contents s)" by (rule c)
    show "rec_content_id r = content_id c" by (simp add: r score_candidate_def)
    show "let overlap = ?overlap; peer = ?peer
          in length overlap \<le> 2
             \<and> set overlap \<subseteq> set (tag_list (interests usr)) \<inter> set (tag_list (tags c))
             \<and> (overlap = [] \<longleftrightarrow> tag_overlap (tag_list (interests usr)) (tag_list (tags c)) = 0)
             \<and> reason_tags r = (if overlap @ peer = [] then [''recommended_for_you'']
                                 else overlap @ peer)"
      unfolding Let_def using l2 set_tag_reasons emp rt_eq by blast
  qed
  from log_recommendations_appends [OF logged] have
    "\<exists>new. recommendation_logs s' = recommendation_logs s @ new
           \<and> map log_reason_tags new = map (\<lambda>r. join_comma (reason_tags r)) (recommendations resp)"
    by blast
  with ne le shape show ?thesis
    by blast
qed

theorem reason_tags_shape_witness:
  "get_recommendations demo_runtime demo_busy_store ''u1'' 10 Hybrid =
     (demo_busy_store\<lparr>recommendation_logs := demo_busy_logs\<rparr>,
      Inr \<lparr> resp_user_id = ''u1'', recommendations = demo_busy_recs,
            model_version = ''v2.0.0'', resp_strategy = Hybrid \<rparr>)
   \<and> demo_busy_recs ! 1 \<in> set demo_busy_recs
   \<and> reason_tags (demo_busy_recs ! 1) = [''cloud'', ''popular_with_similar_users'']
   \<and> reason_tags (demo_busy_recs ! 1) \<noteq> []
   \<and> length (reason_tags (demo_busy_recs ! 1)) \<le> 3
   \<and> map log_reason_tags demo_busy_logs = [''python'', ''cloud,popular_with_similar_users'']"
proof -
  have mem: "demo_busy_recs ! 1 \<in> set (recommendations \<lparr> resp_user_id = ''u1'',
       recommendations = demo_busy_recs, model_version = ''v2.0.0'', resp_strategy = Hybrid \<rparr>)"
    by (simp add: demo_busy_recs_def)
  from reason_tags_shape [OF demo_busy_request mem]
  have "reason_tags (demo_busy_recs ! 1) \<noteq> [] \<and> length (reason_tags (demo_busy_recs ! 1)) \<le> 3"
    by blast
  then show ?thesis
    using demo_busy_request mem by (simp add: demo_busy_recs_def demo_busy_logs_def)
qed

section \<open>Strategy gating of the peer step\<close>

lemma join_rows_no_events:
  assumes "filter (\<lambda>e. ev_user_id e = uid) evs = []"
  shows "join_rows evs uid = []"
proof -
  have "\<forall>e\<in>set evs. ev_user_id e \<noteq> uid"
    using assms by (simp add: filter_empty_conv)
  then show ?thesis
    by (simp add: join_rows_def filter_empty_conv)
qed

lemma similar_users_no_events:
  assumes "filter (\<lambda>e. ev_user_id e = uid) evs = []"
  shows "similar_users rt evs uid = []"
  by (simp add: similar_users_def peer_groups_def join_rows_no_events [OF assms])

lemma peer_hit_no_events:
  assumes "filter (\<lambda>e. ev_user_id e = uid) evs = []"
  shows "\<not> peer_hit rt evs uid strat cid"
  by (simp add: peer_hit_def peer_affinity_def similar_users_no_events [OF assms])

lemma raw_score_no_peer_hit:
  assumes "\<not> peer_hit rt evs (user_id usr) strat (content_id c)"
  shows "raw_score rt evs usr strat c = raw_score rt evs usr ContentBased c"
  using assms by (simp add: raw_score_def peer_hit_def)

lemma found_tags_no_peer_hit:
  assumes "\<not> peer_hit rt evs (user_id usr) strat (content_id c)"
  shows "found_tags rt evs usr strat c = found_tags rt evs usr ContentBased c"
  using assms by (simp add: found_tags_def peer_hit_def)

lemma score_candidate_no_events:
  assumes "filter (\<lambda>e. ev_user_id e = user_id usr) evs = []"
  shows "score_candidate rt evs usr strat i c = score_candidate rt evs usr ContentBased i c"
proof -
  have no_hit: "\<not> peer_hit rt evs (user_id usr) strat (content_id c)"
    by (rule peer_hit_no_events [OF assms])
  show ?thesis
    unfolding score_candidate_def final_score_def decayed_score_def
    by (simp only: raw_score_no_peer_hit [OF no_hit] found_tags_no_peer_hit [OF no_hit])
qed

lemma score_all_no_events:
  assumes "filter (\<lambda>e. ev_user_id e = user_id usr) evs = []"
  shows "score_all rt evs usr strat i cs = score_all rt evs usr ContentBased i cs"
proof (induction cs arbitrary: i)
  case Nil
  show ?case by simp
next
  case (Cons c cs)
  have "score_candidate rt evs usr strat i c = score_candidate rt evs usr ContentBased i c"
    by (rule score_candidate_no_events [OF assms])
  then show ?case
    by (simp add: Cons.IH)
qed

lemma get_recommendations_no_events:
  assumes "filter (\<lambda>e. ev_user_id e = uid) (events s) = []"
  shows "fst (get_recommendations rt s uid k Hybrid) = fst (get_recommendations rt s uid k ContentBased)
     \<and> map_sum id recommendations (snd (get_recommendations rt s uid k Hybrid))
         = map_sum id recommendations (snd (get_recommendations rt s uid k ContentBased))"
proof (cases "find (\<lambda>u. user_id u = uid) (users s)")
  case None
  then show ?thesis
    by (simp add: get_recommendations_def)
next
  case (Some usr)
  then have "user_id usr = uid"
    using find_user_id by blast
  with assms have "score_all rt (events s) usr Hybrid 0 (contents s)
                     = score_all rt (events s) usr ContentBased 0 (contents s)"
    using score_all_no_events [of usr "events s" rt Hybrid 0 "contents s"] by simp
  then show ?thesis
    using Some by (simp add: get_recommendations_def Let_def split: sum.splits)
qed

text \<open>
  Claim C6. For every strategy the final score is the clamped sum of the tag, difficulty
  and popularity contributions, decayed, plus the jitter; the peer bonus of 0.2 enters
  only when the strategy is collaborative or hybrid and the peer check fires, and never
  under content_based. For a user without events the peer list is empty, so with the
  same clock and random draws every candidate gets the same recommendation entry under
  hybrid as under content_based, and so do the whole candidate list and the request's
  returned list and store.
\<close>

theorem peer_step_gated_by_strategy:
  "final_score rt evs usr strat i c =
     min ((tag_contribution (tag_list (interests usr)) (tag_list (tags c))
           + difficulty_match (skill_level usr) (difficulty c) * 0.2
           + popularity_score c * 0.15
           + (if (strat = Collaborative \<or> strat = Hybrid)
                  \<and> peer_affinity rt evs (user_id usr) (content_id c) then 0.2 else 0))
          * recency_factor (days_old (clock rt i) (created_at c))
          + uniform 0 0.1 (random_draw rt i)) 1
   \<and> final_score rt evs usr ContentBased i c =
     min ((tag_contribution (tag_list (interests usr)) (tag_list (tags c))
           + difficulty_match (skill_level usr) (difficulty c) * 0.2
           + popularity_score c * 0.15)
          * recency_factor (days_old (clock rt i) (created_at c))
          + uniform 0 0.1 (random_draw rt i)) 1
   \<and> (filter (\<lambda>e. ev_user_id e = user_id usr) evs = [] \<longrightarrow>
         similar_users rt evs (user_id usr) = []
         \<and> score_candidate rt evs usr Hybrid i c = score_candidate rt evs usr ContentBased i c
         \<and> score_all rt evs usr Hybrid i cs = score_all rt evs usr ContentBased i cs)
   \<and> (filter (\<lambda>e. ev_user_id e = uid) (events s) = [] \<longrightarrow>
         fst (get_recommendations rt s uid k Hybrid) = fst (get_recommendations rt s uid k ContentBased)
         \<and> map_sum id recommendations (snd (get_recommendations rt s uid k Hybrid))
             = map_sum id recommendations (snd (get_recommendations rt s uid k ContentBased)))"
proof (intro conjI impI)
  show "final_score rt evs usr strat i c =
     min ((tag_contribution (tag_list (interests usr)) (tag_list (tags c))
           + difficulty_match (skill_level usr) (difficulty c) * 0.2
           + popularity_score c * 0.15
           + (if (strat = Collaborative \<or> strat = Hybrid)
                  \<and> peer_affinity rt evs (user_id usr) (content_id c) then 0.2 else 0))
          * recency_factor (days_old (clock rt i) (created_at c))
          + uniform 0 0.1 (random_draw rt i)) 1"
    by (simp add: final_score_def decayed_score_def raw_score_def peer_hit_def)
  show "final_score rt evs usr ContentBased i c =
     min ((tag_contribution (tag_list (interests usr)) (tag_list (tags c))
           + difficulty_match (skill_level usr) (difficulty c) * 0.2
           + popularity_score c * 0.15)
          * recency_factor (days_old (clock rt i) (created_at c))
          + uniform 0 0.1 (random_draw rt i)) 1"
    by (simp add: final_score_def decayed_score_def raw_score_def peer_hit_def)
next
  assume none: "filter (\<lambda>e. ev_user_id e = user_id usr) evs = []"
  show "similar_users rt evs (user_id usr) = []"
    by (rule similar_users_no_events [OF none])
  show "score_candidate rt evs usr Hybrid i c = score_candidate rt evs usr ContentBased i c"
    by (rule score_candidate_no_events [OF none])
  show "score_all rt evs usr Hybrid i cs = score_all rt evs usr ContentBased i cs"
    by (rule score_all_no_events [OF none])
next
  assume none: "filter (\<lambda>e. ev_user_id e = uid) (events s) = []"
  show "fst (get_recommendations rt s uid k Hybrid) = fst (get_recommendations rt s uid k ContentBased)"
    using get_recommendations_no_events [OF none] by blast
  show "map_sum id recommendations (snd (get_recommendations rt s uid k Hybrid))
          = map_sum id recommendations (snd (get_recommendations rt s uid k ContentBased))"
    using get_recommendations_no_events [OF none] by blast
qed

theorem peer_step_gated_by_strategy_witness:
  "filter (\<lambda>e. ev_user_id e = user_id demo_user) (events demo_store) = []
   \<and> similar_users demo_runtime (events demo_store) (user_id demo_user) = []
   \<and> score (score_candidate demo_runtime (events demo_store) demo_user Hybrid 0 demo_content) = 0.56
   \<and> score (score_candidate demo_runtime (events demo_store) demo_user ContentBased 0 demo_content) = 0.56
   \<and> score_all demo_runtime (events demo_store) demo_user Hybrid 0 (contents demo_store)
       = score_all demo_runtime (events demo_store) demo_user ContentBased 0 (contents demo_store)
   \<and> map_sum id recommendations (snd (get_recommendations demo_runtime demo_store ''u1'' 10 Hybrid))
       = map_sum id recommendations (snd (get_recommendations demo_runtime demo_store ''u1'' 10 ContentBased))"
proof -
  have none: "filter (\<lambda>e. ev_user_id e = user_id demo_user) (events demo_store) = []"
    by (simp add: demo_defs)
  have none': "filter (\<lambda>e. ev_user_id e = ''u1'') (events demo_store) = []"
    by (simp add: demo_defs)
  have cb: "score (score_candidate demo_runtime (events demo_store) demo_user ContentBased 0 demo_content) = 0.56"
    by (simp add: score_candidate_def demo_defs score_defs)
  from peer_step_gated_by_strategy [where rt = demo_runtime and evs = "events demo_store"
      and usr = demo_user and strat = Hybrid and i = 0 and c = demo_content
      and cs = "contents demo_store" and s = demo_store and uid = "''u1''" and k = 10]
    none none' cb
  show ?thesis
    by simp
qed

section \<open>Event ingestion: failures and the event log\<close>

lemma find_None_ids: "find (\<lambda>x. f x = k) xs = None \<longleftrightarrow> k \<notin> f ` set xs"
  by (auto simp: find_None_iff)

text \<open>
  Claim C7. Event ingestion answers NotFound exactly when the user id or the content id of
  the request is not in the store. On every failure the store is left as it was: no event
  row, no change of \<open>last_active\<close>, no new popularity. On success the events are the old
  ones followed by the one new row. (Success needs, besides the two ids, that the drawn
  event id is not yet a key of the events table.)
\<close>

theorem event_ingestion_not_found:
  "(snd (log_event eid ts s ev) = Inl NotFound \<longleftrightarrow>
      ec_user_id ev \<notin> user_id ` set (users s) \<or> ec_content_id ev \<notin> content_id ` set (contents s))
   \<and> (\<forall>e. snd (log_event eid ts s ev) = Inl e \<longrightarrow> fst (log_event eid ts s ev) = s)
   \<and> (\<forall>r. snd (log_event eid ts s ev) = Inr r \<longrightarrow>
         events (fst (log_event eid ts s ev)) =
           events s @ [\<lparr> event_id = eid, ev_user_id = ec_user_id ev,
                          ev_content_id = ec_content_id ev, event_type = ec_event_type ev,
                          ev_value = ec_value ev, session_id = ec_session_id ev,
                          ev_timestamp = ts \<rparr>]
         \<and> length (events (fst (log_event eid ts s ev))) = Suc (length (events s)))
   \<and> ((\<exists>r. snd (log_event eid ts s ev) = Inr r) \<longleftrightarrow>
         ec_user_id ev \<in> user_id ` set (users s) \<and> ec_content_id ev \<in> content_id ` set (contents s)
         \<and> eid \<notin> event_id ` set (events s))"
  by (auto simp: log_event_def Let_def find_None_ids)

theorem event_ingestion_not_found_witness:
  "ec_content_id demo_missing_request \<notin> content_id ` set (contents demo_store)
   \<and> log_event ''e9'' 7 demo_store demo_missing_request = (demo_store, Inl NotFound)
   \<and> snd (log_event ''e9'' 7 demo_store demo_view_request)
       = Inr \<lparr> resp_event_id = ''e9'', status = ''success'', resp_timestamp = 7 \<rparr>
   \<and> map event_id (events (fst (log_event ''e9'' 7 demo_store demo_view_request))) = [''e9'']"
proof -
  have miss: "ec_content_id demo_missing_request \<notin> content_id ` set (contents demo_store)"
    by (simp add: demo_defs demo_missing_request_def)
  have ok: "snd (log_event ''e9'' 7 demo_store demo_view_request)
       = Inr \<lparr> resp_event_id = ''e9'', status = ''success'', resp_timestamp = 7 \<rparr>"
    by (simp add: log_event_def Let_def demo_defs demo_view_request_def)
  from event_ingestion_not_found [of "''e9''" 7 demo_store demo_missing_request] miss
  have nf: "snd (log_event ''e9'' 7 demo_store demo_missing_request) = Inl NotFound"
    and same: "fst (log_event ''e9'' 7 demo_store demo_missing_request) = demo_store"
    by simp_all
  from event_ingestion_not_found [of "''e9''" 7 demo_store demo_view_request] ok
  have "events (fst (log_event ''e9'' 7 demo_store demo_view_request)) =
           events demo_store @ [\<lparr> event_id = ''e9'', ev_user_id = ec_user_id demo_view_request,
                          ev_content_id = ec_content_id demo_view_request,
                          event_type = ec_event_type demo_view_request,
                          ev_value = ec_value demo_view_request,
                          session_id = ec_session_id demo_view_request,
                          ev_timestamp = 7 \<rparr>]"
    by blast
  then have "map event_id (events (fst (log_event ''e9'' 7 demo_store demo_view_request))) = [''e9'']"
    by (simp add: demo_store_def)
  with miss ok nf same show ?thesis
    by (simp add: prod_eq_iff)
qed

section \<open>Popularity follows the event volume\<close>

lemma log_event_Inr:
  assumes "log_event eid ts s ev = (s', Inr r)"
  shows "events s' = events s @ [\<lparr> event_id = eid, ev_user_id = ec_user_id ev,
                          ev_content_id = ec_content_id ev, event_type = ec_event_type ev,
                          ev_value = ec_value ev, session_id = ec_session_id ev,
                          ev_timestamp = ts \<rparr>]
     \<and> contents s' = update_popularity (events s') (ec_content_id ev) (contents s)
     \<and> ec_content_id ev \<in> content_id ` set (contents s)"
  using assms by (auto simp: log_event_def Let_def find_None_ids split: if_splits)

lemma log_event_cases:
  obtains (failed) e where "log_event eid ts s ev = (s, Inl e)"
  | (stored) s' r where "log_event eid ts s ev = (s', Inr r)"
proof (cases "snd (log_event eid ts s ev)")
  case (Inl e)
  then have "log_event eid ts s ev = (s, Inl e)"
    by (auto simp: log_event_def Let_def split: if_splits)
  then show ?thesis by (rule failed)
next
  case (Inr r)
  then have "log_event eid ts s ev = (fst (log_event eid ts s ev), Inr r)"
    by (simp add: prod_eq_iff)
  then show ?thesis by (rule stored)
qed

lemma event_volume_append:
  "event_volume (evs @ [e]) cid = event_volume evs cid + (if ev_content_id e = cid then 1 else 0)"
  by (simp add: event_volume_def)

lemma log_event_volume_mono:
  "event_volume (events s) cid \<le> event_volume (events (fst (log_event eid ts s ev))) cid"
proof (cases rule: log_event_cases [of eid ts s ev])
  case (failed e)
  then show ?thesis by simp
next
  case (stored s' r)
  then show ?thesis
    using log_event_Inr [OF stored] by (simp add: event_volume_append)
qed

lemma log_event_content_ids:
  "map content_id (contents (fst (log_event eid ts s ev))) = map content_id (contents s)"
proof (cases rule: log_event_cases [of eid ts s ev])
  case (failed e)
  then show ?thesis by simp
next
  case (stored s' r)
  have "map content_id (update_popularity evs cid cs) = map content_id cs" for evs cid cs
    by (induction cs) (simp_all add: update_popularity_def)
  then show ?thesis
    using log_event_Inr [OF stored] stored by simp
qed

lemma update_popularity_same:
  "c \<in> set (update_popularity evs cid cs) \<Longrightarrow> content_id c = cid \<Longrightarrow>
     popularity_score c = real (event_volume evs cid) * 0.01"
proof -
  assume mem: "c \<in> set (update_popularity evs cid cs)" and cid: "content_id c = cid"
  from mem have "c \<in> (\<lambda>x. if content_id x = cid
             then x\<lparr>popularity_score := real (event_volume evs cid) * 0.01\<rparr> else x) ` set cs"
    by (simp only: update_popularity_def set_map)
  then obtain x where
    c: "c = (if content_id x = cid
             then x\<lparr>popularity_score := real (event_volume evs cid) * 0.01\<rparr> else x)"
    by (rule imageE)
  show ?thesis
  proof (cases "content_id x = cid")
    case True
    then show ?thesis by (simp add: c)
  next
    case False
    then show ?thesis using c cid by simp
  qed
qed

lemma update_popularity_other:
  "c \<in> set (update_popularity evs cid cs) \<Longrightarrow> content_id c \<noteq> cid \<Longrightarrow> c \<in> set cs"
  by (auto simp: update_popularity_def)

lemma popularity_synced_iff:
  "popularity_synced s cid \<longleftrightarrow>
     (\<forall>c\<in>set (contents s). content_id c = cid \<longrightarrow>
        popularity_score c = real (event_volume (events s) cid) * 0.01)"
  by (simp only: popularity_synced_def list_all_iff)

lemma log_event_synced:
  assumes "log_event eid ts s ev = (s', Inr r)"
  shows "popularity_synced s' (ec_content_id ev)"
proof -
  have cs: "contents s' = update_popularity (events s') (ec_content_id ev) (contents s)"
    using log_event_Inr [OF assms] by blast
  show ?thesis
    unfolding popularity_synced_iff cs
    using update_popularity_same by blast
qed

lemma log_event_synced_preserved:
  assumes "popularity_synced s cid"
  shows "popularity_synced (fst (log_event eid ts s ev)) cid"
proof (cases rule: log_event_cases [of eid ts s ev])
  case (failed e)
  then show ?thesis using assms by simp
next
  case (stored s' r)
  show ?thesis
  proof (cases "ec_content_id ev = cid")
    case True
    then show ?thesis
      using log_event_synced [OF stored] stored by simp
  next
    case False
    have vol: "event_volume (events s') cid = event_volume (events s) cid"
      using log_event_Inr [OF stored] False by (simp add: event_volume_append)
    have cs: "contents s' = update_popularity (events s') (ec_content_id ev) (contents s)"
      using log_event_Inr [OF stored] by blast
    have "popularity_score c = real (event_volume (events s') cid) * 0.01"
      if "c \<in> set (contents s')" and "content_id c = cid" for c
    proof -
      from that False have "c \<in> set (contents s)"
        unfolding cs by (auto dest: update_popularity_other)
      with assms that(2) show ?thesis
        by (simp add: popularity_synced_iff vol)
    qed
    then have "popularity_synced s' cid"
      unfolding popularity_synced_iff by blast
    then show ?thesis
      using stored by simp
  qed
qed

lemma ingest_all_synced:
  "popularity_synced s cid \<Longrightarrow> popularity_synced (ingest_all s reqs) cid"
  by (induction s reqs rule: ingest_all.induct) (simp_all add: log_event_synced_preserved)

lemma ingest_all_volume_mono:
  "event_volume (events s) cid \<le> event_volume (events (ingest_all s reqs)) cid"
proof (induction s reqs rule: ingest_all.induct)
  case (1 s)
  show ?case by simp
next
  case (2 s eid ts ev rest)
  from log_event_volume_mono [of s cid eid ts ev] "2.IH"
  show ?case by simp
qed

lemma ingest_all_content_ids:
  "map content_id (contents (ingest_all s reqs)) = map content_id (contents s)"
  by (induction s reqs rule: ingest_all.induct) (simp_all add: log_event_content_ids)

text \<open>
  Claim C10. After a successful ingestion for content \<open>c\<close> the store has a row for \<open>c\<close>
  and one more event for it than before. For every row of \<open>c\<close> and every further run of
  ingestion requests: the rows keep their places and ids; the popularity of the row is
  0.01 times the number of events for \<open>c\<close>, right after the ingestion and after the run;
  that number and the popularity never decrease; and once \<open>c\<close> has more than 100 events
  the popularity exceeds 1 and the popularity contribution \<open>popularity * 0.15\<close> exceeds
  0.15.
\<close>

theorem popularity_tracks_event_volume:
  assumes "log_event eid ts s ev = (s1, Inr r)"
  shows "(\<exists>c\<in>set (contents s1). content_id c = ec_content_id ev)
     \<and> event_volume (events s1) (ec_content_id ev) = Suc (event_volume (events s) (ec_content_id ev))
     \<and> (\<forall>reqs i. i < length (contents s1) \<and> content_id (contents s1 ! i) = ec_content_id ev \<longrightarrow>
           (let s2 = ingest_all s1 reqs;
                n1 = event_volume (events s1) (ec_content_id ev);
                n2 = event_volume (events s2) (ec_content_id ev)
            in n1 \<le> n2
               \<and> map content_id (contents s2) = map content_id (contents s1)
               \<and> popularity_score (contents s1 ! i) = real n1 * 0.01
               \<and> popularity_score (contents s2 ! i) = real n2 * 0.01
               \<and> popularity_score (contents s1 ! i) \<le> popularity_score (contents s2 ! i)
               \<and> (100 < n2 \<longrightarrow> 1 < popularity_score (contents s2 ! i)
                                \<and> 0.15 < popularity_score (contents s2 ! i) * 0.15)))"
proof (intro conjI allI impI)
  let ?cid = "ec_content_id ev"
  have facts: "events s1 = events s @ [\<lparr> event_id = eid, ev_user_id = ec_user_id ev,
                          ev_content_id = ?cid, event_type = ec_event_type ev,
                          ev_value = ec_value ev, session_id = ec_session_id ev,
                          ev_timestamp = ts \<rparr>]"
      "?cid \<in> content_id ` set (contents s)"
    using log_event_Inr [OF assms] by blast+
  have "map content_id (contents s1) = map content_id (contents s)"
    using log_event_content_ids [of eid ts s ev] assms by simp
  then have "content_id ` set (contents s1) = content_id ` set (contents s)"
    by (metis set_map)
  with facts(2) have "?cid \<in> content_id ` set (contents s1)"
    by simp
  then show "\<exists>c\<in>set (contents s1). content_id c = ?cid"
    by (metis imageE)
  show "event_volume (events s1) ?cid = Suc (event_volume (events s) ?cid)"
    by (simp add: facts(1) event_volume_append)
next
  fix reqs i
  let ?cid = "ec_content_id ev"
  let ?s2 = "ingest_all s1 reqs"
  let ?n1 = "event_volume (events s1) ?cid"
  let ?n2 = "event_volume (events ?s2) ?cid"
  assume i: "i < length (contents s1) \<and> content_id (contents s1 ! i) = ?cid"
  have ids: "map content_id (contents ?s2) = map content_id (contents s1)"
    by (rule ingest_all_content_ids)
  have len: "length (contents ?s2) = length (contents s1)"
    using arg_cong [OF ids, where f = length] by simp
  have "content_id (contents ?s2 ! i) = map content_id (contents ?s2) ! i"
    using i len by simp
  also have "\<dots> = content_id (contents s1 ! i)"
    using i by (simp add: ids)
  finally have id2: "content_id (contents ?s2 ! i) = ?cid"
    using i by simp
  have mono: "?n1 \<le> ?n2"
    by (rule ingest_all_volume_mono)
  have sync1: "popularity_synced s1 ?cid"
    by (rule log_event_synced [OF assms])
  then have sync2: "popularity_synced ?s2 ?cid"
    by (rule ingest_all_synced)
  have p1: "popularity_score (contents s1 ! i) = real ?n1 * 0.01"
    using sync1 i unfolding popularity_synced_iff by (meson nth_mem)
  have "contents ?s2 ! i \<in> set (contents ?s2)"
    using i len by simp
  then have p2: "popularity_score (contents ?s2 ! i) = real ?n2 * 0.01"
    using sync2 id2 unfolding popularity_synced_iff by blast
  have le: "popularity_score (contents s1 ! i) \<le> popularity_score (contents ?s2 ! i)"
    using mono by (simp add: p1 p2)
  have big: "1 < popularity_score (contents ?s2 ! i)
             \<and> 0.15 < popularity_score (contents ?s2 ! i) * 0.15" if "100 < ?n2"
  proof -
    from that have "real 100 < real ?n2"
      by (simp only: of_nat_less_iff)
    then show ?thesis
      by (simp add: p2)
  qed
  show "let s2 = ingest_all s1 reqs;
            n1 = event_volume (events s1) (ec_content_id ev);
            n2 = event_volume (events s2) (ec_content_id ev)
        in n1 \<le> n2
           \<and> map content_id (contents s2) = map content_id (contents s1)
           \<and> popularity_score (contents s1 ! i) = real n1 * 0.01
           \<and> popularity_score (contents s2 ! i) = real n2 * 0.01
           \<and> popularity_score (contents s1 ! i) \<le> popularity_score (contents s2 ! i)
           \<and> (100 < n2 \<longrightarrow> 1 < popularity_score (contents s2 ! i)
                            \<and> 0.15 < popularity_score (contents s2 ! i) * 0.15)"
    unfolding Let_def using mono ids p1 p2 le big by blast
qed

lemma demo_crowded_volume: "event_volume (events demo_crowded_store) ''c1'' = 100"
  by (simp add: demo_crowded_store_def demo_event_def event_volume_def o_def)

lemma demo_crowded_fresh: "''new'' \<notin> set (map event_id (events demo_crowded_store))"
proof -
  have "''new'' \<noteq> replicate i CHR ''e''" for i
    by (cases i) simp_all
  then show ?thesis
    by (auto simp: demo_crowded_store_def demo_event_def)
qed

lemma demo_crowded_ingest:
  "log_event ''new'' 7 demo_crowded_store demo_view_request =
     (fst (log_event ''new'' 7 demo_crowded_store demo_view_request),
      Inr \<lparr> resp_event_id = ''new'', status = ''success'', resp_timestamp = 7 \<rparr>)"
  using demo_crowded_fresh
  by (simp add: log_event_def Let_def demo_view_request_def demo_crowded_store_def demo_defs)

theorem popularity_tracks_event_volume_witness:
  "snd (log_event ''new'' 7 demo_crowded_store demo_view_request)
       = Inr \<lparr> resp_event_id = ''new'', status = ''success'', resp_timestamp = 7 \<rparr>
   \<and> map content_id (contents (fst (log_event ''new'' 7 demo_crowded_store demo_view_request))) = [''c1'']
   \<and> event_volume (events (fst (log_event ''new'' 7 demo_crowded_store demo_view_request))) ''c1'' = 101
   \<and> popularity_score (contents (fst (log_event ''new'' 7 demo_crowded_store demo_view_request)) ! 0) = 1.01
   \<and> 1 < popularity_score (contents (fst (log_event ''new'' 7 demo_crowded_store demo_view_request)) ! 0)
   \<and> 0.15 < popularity_score (contents (fst (log_event ''new'' 7 demo_crowded_store demo_view_request)) ! 0) * 0.15"
proof -
  let ?s1 = "fst (log_event ''new'' 7 demo_crowded_store demo_view_request)"
  have cid: "ec_content_id demo_view_request = ''c1''"
    by (simp add: demo_view_request_def)
  have ids: "map content_id (contents ?s1) = [''c1'']"
    using log_event_content_ids [of "''new''" 7 demo_crowded_store demo_view_request]
    by (simp add: demo_crowded_store_def demo_defs)
  then have i: "0 < length (contents ?s1) \<and> content_id (contents ?s1 ! 0) = ec_content_id demo_view_request"
    by (auto simp: cid map_eq_Cons_conv)
  from popularity_tracks_event_volume [OF demo_crowded_ingest]
  have vol: "event_volume (events ?s1) ''c1'' = 101"
    by (simp add: cid demo_crowded_volume)
  from popularity_tracks_event_volume [OF demo_crowded_ingest] i
  have "let s2 = ingest_all ?s1 [];
            n1 = event_volume (events ?s1) (ec_content_id demo_view_request);
            n2 = event_volume (events s2) (ec_content_id demo_view_request)
        in n1 \<le> n2
           \<and> map content_id (contents s2) = map content_id (contents ?s1)
           \<and> popularity_score (contents ?s1 ! 0) = real n1 * 0.01
           \<and> popularity_score (contents s2 ! 0) = real n2 * 0.01
           \<and> popularity_score (contents ?s1 ! 0) \<le> popularity_score (contents s2 ! 0)
           \<and> (100 < n2 \<longrightarrow> 1 < popularity_score (contents s2 ! 0)
                            \<and> 0.15 < popularity_score (contents s2 ! 0) * 0.15)"
    by blast
  then have "popularity_score (contents ?s1 ! 0) = 1.01"
    by (simp add: Let_def cid vol)
  then show ?thesis
    using demo_crowded_ingest ids vol by (simp add: prod_eq_iff)
qed

section \<open>The peer finder\<close>

lemma join_rows_peer: "r \<in> set (join_rows evs uid) \<Longrightarrow> ev_user_id (snd r) \<noteq> uid"
  by (auto simp: join_rows_def)

lemma set_similar_users_subset: "set (similar_users rt evs uid) \<subseteq> set (peer_groups evs uid)"
proof -
  have "set (similar_users rt evs uid)
          \<subseteq> set (sort_key (\<lambda>r. - int (snd r)) (sort_key (\<lambda>r. row_rank rt (fst r)) (peer_groups evs uid)))"
    unfolding similar_users_def by (rule set_take_subset)
  then show ?thesis by simp
qed

lemma peer_groups_member:
  assumes "r \<in> set (peer_groups evs uid)"
  shows "fst r \<noteq> uid \<and> snd r = common_items evs uid (fst r) \<and> 0 < snd r"
proof -
  from assms obtain p where p: "p \<in> set (map (\<lambda>r. ev_user_id (snd r)) (join_rows evs uid))"
    and r: "r = (p, common_items evs uid p)"
    by (auto simp: peer_groups_def)
  from p obtain row where row: "row \<in> set (join_rows evs uid)" and "p = ev_user_id (snd row)"
    by auto
  then have "p \<noteq> uid" and "filter (\<lambda>r. ev_user_id (snd r) = p) (join_rows evs uid) \<noteq> []"
    using join_rows_peer [OF row] by (auto simp: filter_empty_conv)
  then show ?thesis
    by (simp add: r common_items_def)
qed

lemma distinct_peer_groups: "distinct (map fst (peer_groups evs uid))"
  by (simp add: peer_groups_def o_def)

lemma distinct_map_insort_key:
  "distinct (map g (insort_key f x xs)) \<longleftrightarrow> g x \<notin> g ` set xs \<and> distinct (map g xs)"
  by (induction xs) (auto simp: set_insort_key)

lemma distinct_map_sort_key: "distinct (map g (sort_key f xs)) \<longleftrightarrow> distinct (map g xs)"
  by (induction xs) (simp_all add: distinct_map_insort_key)

lemma distinct_similar_users: "distinct (map fst (similar_users rt evs uid))"
proof -
  let ?ranked = "sort_key (\<lambda>r. - int (snd r)) (sort_key (\<lambda>r. row_rank rt (fst r)) (peer_groups evs uid))"
  have "distinct (map fst ?ranked)"
    using distinct_peer_groups [of evs uid] by (simp only: distinct_map_sort_key)
  then have "distinct (take 10 (map fst ?ranked))"
    by (rule distinct_take)
  then show ?thesis
    by (simp add: similar_users_def take_map)
qed

lemma sorted_similar_users: "sorted_wrt (\<lambda>a b. snd b \<le> snd a) (similar_users rt evs uid)"
proof -
  let ?ranked = "sort_key (\<lambda>r. - int (snd r)) (sort_key (\<lambda>r. row_rank rt (fst r)) (peer_groups evs uid))"
  have "sorted (map (\<lambda>r. - int (snd r)) ?ranked)"
    by (rule sorted_sort_key)
  then have "sorted_wrt (\<lambda>a b. snd b \<le> snd a) ?ranked"
    by (simp add: sorted_wrt_map)
  then show ?thesis
    unfolding similar_users_def by (rule sorted_wrt_take)
qed

lemma peer_groups_set:
  "set (peer_groups evs uid) =
     (\<lambda>p. (p, common_items evs uid p)) ` {p. 0 < common_items evs uid p}"
proof -
  have "p \<in> set (map (\<lambda>r. ev_user_id (snd r)) (join_rows evs uid)) \<longleftrightarrow> 0 < common_items evs uid p"
    for p
    by (auto simp: common_items_def filter_empty_conv)
  then show ?thesis
    by (auto simp: peer_groups_def)
qed

text \<open>
  Claim C9, as the code computes it. The peer list has at most 10 entries, never the
  query user, no user twice, and is sorted by descending count, where the count of a peer
  is the number of pairs of an event of the query user and an event of the peer on the
  same content (of any type), and is positive. It is empty when the query user has no
  events. It is the first 10 entries of the ranking of all users with a positive count:
  that ranking is sorted by descending count, so no peer left out has a higher count than
  a returned one. The query has no second sort key: peers with equal counts stand in the
  ranking in the order in which the database engine enumerated their groups.
\<close>

theorem peer_finder_contract:
  "length (similar_users rt evs uid) \<le> 10
   \<and> uid \<notin> fst ` set (similar_users rt evs uid)
   \<and> distinct (map fst (similar_users rt evs uid))
   \<and> sorted_wrt (\<lambda>a b. snd b \<le> snd a) (similar_users rt evs uid)
   \<and> (\<forall>r\<in>set (similar_users rt evs uid). snd r = common_items evs uid (fst r) \<and> 0 < snd r)
   \<and> (filter (\<lambda>e. ev_user_id e = uid) evs = [] \<longrightarrow> similar_users rt evs uid = [])
   \<and> (\<exists>ranked. similar_users rt evs uid = take 10 ranked
         \<and> sorted_wrt (\<lambda>a b. snd b \<le> snd a) ranked
         \<and> set ranked = (\<lambda>p. (p, common_items evs uid p)) ` {p. 0 < common_items evs uid p}
         \<and> distinct (map fst ranked)
         \<and> (\<forall>r\<in>set (similar_users rt evs uid). \<forall>q\<in>set (drop 10 ranked). snd q \<le> snd r)
         \<and> (\<forall>n. filter (\<lambda>r. snd r = n) ranked
                  = filter (\<lambda>r. snd r = n) (sort_key (\<lambda>r. row_rank rt (fst r)) (peer_groups evs uid))))"
proof (intro conjI)
  let ?byrank = "sort_key (\<lambda>r. row_rank rt (fst r)) (peer_groups evs uid)"
  let ?ranked = "sort_key (\<lambda>r. - int (snd r)) ?byrank"
  show "length (similar_users rt evs uid) \<le> 10"
    by (simp add: similar_users_def)
  show "uid \<notin> fst ` set (similar_users rt evs uid)"
    using set_similar_users_subset [of rt evs uid] peer_groups_member [of _ evs uid] by blast
  show "distinct (map fst (similar_users rt evs uid))"
    by (rule distinct_similar_users)
  show "sorted_wrt (\<lambda>a b. snd b \<le> snd a) (similar_users rt evs uid)"
    by (rule sorted_similar_users)
  show "\<forall>r\<in>set (similar_users rt evs uid). snd r = common_items evs uid (fst r) \<and> 0 < snd r"
  proof
    fix r
    assume "r \<in> set (similar_users rt evs uid)"
    then have "r \<in> set (peer_groups evs uid)"
      using set_similar_users_subset by blast
    then show "snd r = common_items evs uid (fst r) \<and> 0 < snd r"
      using peer_groups_member by blast
  qed
  show "filter (\<lambda>e. ev_user_id e = uid) evs = [] \<longrightarrow> similar_users rt evs uid = []"
    using similar_users_no_events by blast
  have top: "similar_users rt evs uid = take 10 ?ranked"
    by (simp only: similar_users_def)
  have "sorted (map (\<lambda>r. - int (snd r)) ?ranked)"
    by (rule sorted_sort_key)
  then have ranked_sorted: "sorted_wrt (\<lambda>a b. snd b \<le> snd a) ?ranked"
    by (simp add: sorted_wrt_map)
  have ranked_set: "set ?ranked = (\<lambda>p. (p, common_items evs uid p)) ` {p. 0 < common_items evs uid p}"
    by (simp add: peer_groups_set)
  have ranked_distinct: "distinct (map fst ?ranked)"
    using distinct_peer_groups [of evs uid] by (simp only: distinct_map_sort_key)
  have above: "\<forall>r\<in>set (similar_users rt evs uid). \<forall>q\<in>set (drop 10 ?ranked). snd q \<le> snd r"
    unfolding top by (rule sorted_take_over_drop [OF ranked_sorted])
  have ties: "\<forall>n. filter (\<lambda>r. snd r = n) ?ranked = filter (\<lambda>r. snd r = n) ?byrank"
  proof
    fix n
    have "filter (\<lambda>r. - int (snd r) = - int n) ?ranked = filter (\<lambda>r. - int (snd r) = - int n) ?byrank"
      by (rule sort_key_stable)
    then show "filter (\<lambda>r. snd r = n) ?ranked = filter (\<lambda>r. snd r = n) ?byrank"
      by simp
  qed
  from top ranked_sorted ranked_set ranked_distinct above ties
  show "\<exists>ranked. similar_users rt evs uid = take 10 ranked
         \<and> sorted_wrt (\<lambda>a b. snd b \<le> snd a) ranked
         \<and> set ranked = (\<lambda>p. (p, common_items evs uid p)) ` {p. 0 < common_items evs uid p}
         \<and> distinct (map fst ranked)
         \<and> (\<forall>r\<in>set (similar_users rt evs uid). \<forall>q\<in>set (drop 10 ranked). snd q \<le> snd r)
         \<and> (\<forall>n. filter (\<lambda>r. snd r = n) ranked
                  = filter (\<lambda>r. snd r = n) (sort_key (\<lambda>r. row_rank rt (fst r)) (peer_groups evs uid)))"
    by blast
qed

lemmas peer_defs = similar_users_def peer_groups_def join_rows_def common_items_def

text \<open>
  Against the tie-break of claim C9: on the same three events, two engines that enumerate
  the groups differently give the tied peers \<open>u2\<close> and \<open>u3\<close> in different orders, the
  second not by ascending user id.
\<close>

theorem peer_order_left_to_engine:
  "similar_users demo_runtime demo_tie_events ''u1'' = [(''u2'', 1), (''u3'', 1)]
   \<and> similar_users demo_other_engine demo_tie_events ''u1'' = [(''u3'', 1), (''u2'', 1)]"
  by (simp add: peer_defs demo_tie_events_def demo_other_engine_def demo_event_def demo_runtime_def)

lemma demo_eleven_peers:
  "similar_users demo_runtime demo_eleven_events ''q'' =
     [(''s'', 2), (''p0'', 1), (''p1'', 1), (''p2'', 1), (''p3'', 1), (''p4'', 1), (''p5'', 1),
      (''p6'', 1), (''p7'', 1), (''p8'', 1)]"
  by (simp add: peer_defs demo_eleven_events_def demo_event_def demo_runtime_def)

theorem peer_finder_contract_witness:
  "filter (\<lambda>e. ev_user_id e = ''u1'') (events demo_store) = []
   \<and> similar_users demo_runtime (events demo_store) ''u1'' = []
   \<and> similar_users demo_runtime demo_tie_events ''u1'' = [(''u2'', 1), (''u3'', 1)]
   \<and> common_items demo_tie_events ''u1'' ''u2'' = 1
   \<and> common_items demo_tie_events ''u1'' ''u3'' = 1
   \<and> similar_users demo_runtime demo_eleven_events ''q'' =
       [(''s'', 2), (''p0'', 1), (''p1'', 1), (''p2'', 1), (''p3'', 1), (''p4'', 1), (''p5'', 1),
        (''p6'', 1), (''p7'', 1), (''p8'', 1)]
   \<and> common_items demo_eleven_events ''q'' ''s'' = 2
   \<and> common_items demo_eleven_events ''q'' ''p9'' = 1"
proof -
  have none: "filter (\<lambda>e. ev_user_id e = ''u1'') (events demo_store) = []"
    by (simp add: demo_defs)
  have tie: "similar_users demo_runtime demo_tie_events ''u1'' = [(''u2'', 1), (''u3'', 1)]"
    by (simp add: peer_defs demo_tie_events_def demo_event_def demo_runtime_def)
  from peer_finder_contract [of demo_runtime "events demo_store" "''u1''"] none
  have empty: "similar_users demo_runtime (events demo_store) ''u1'' = []"
    by blast
  from peer_finder_contract [of demo_runtime demo_tie_events "''u1''"]
  have "\<forall>r\<in>set (similar_users demo_runtime demo_tie_events ''u1'').
          snd r = common_items demo_tie_events ''u1'' (fst r) \<and> 0 < snd r"
    by blast
  then have two: "common_items demo_tie_events ''u1'' ''u2'' = 1
             \<and> common_items demo_tie_events ''u1'' ''u3'' = 1"
    by (simp add: tie)
  from peer_finder_contract [of demo_runtime demo_eleven_events "''q''"]
  have "\<forall>r\<in>set (similar_users demo_runtime demo_eleven_events ''q'').
          snd r = common_items demo_eleven_events ''q'' (fst r) \<and> 0 < snd r"
    by blast
  then have strong: "common_items demo_eleven_events ''q'' ''s'' = 2"
    by (simp add: demo_eleven_peers)
  have dropped: "common_items demo_eleven_events ''q'' ''p9'' = 1"
    by (simp add: common_items_def join_rows_def demo_eleven_events_def demo_event_def)
  from none empty tie two strong dropped demo_eleven_peers show ?thesis
    by simp
qed

section \<open>Requests that return\<close>

text \<open>
  A request with \<open>k\<close> in range for an existing user returns a response whenever the
  log ids it draws are new to the log table and differ from one another.
\<close>

lemma log_recommendations_fresh:
  assumes "\<forall>i<length rs. log_ids rt (j + i) \<notin> log_id ` set logs"
    and "inj_on (log_ids rt) {j..<j + length rs}"
  shows "\<exists>logs'. log_recommendations rt uid j rs logs = Inr logs'"
  using assms
proof (induction rs arbitrary: j logs)
  case Nil
  show ?case by simp
next
  case (Cons r rs)
  let ?l = "\<lparr> log_id = log_ids rt j, log_user_id = uid, log_content_id = rec_content_id r,
              log_score = score r, log_model_version = ''v2.0.0'',
              log_reason_tags = join_comma (reason_tags r), clicked = False \<rparr>"
  from Cons.prems(1) have first: "log_ids rt j \<notin> log_id ` set logs"
    by force
  have fresh: "\<forall>i<length rs. log_ids rt (Suc j + i) \<notin> log_id ` set (logs @ [?l])"
  proof (intro allI impI)
    fix i
    assume i: "i < length rs"
    then have "log_ids rt (j + Suc i) \<notin> log_id ` set logs"
      using Cons.prems(1) by (metis Suc_less_eq length_Cons)
    moreover have "log_ids rt (Suc j + i) \<noteq> log_ids rt j"
    proof
      assume "log_ids rt (Suc j + i) = log_ids rt j"
      moreover have "Suc j + i \<in> {j..<j + length (r # rs)}" and "j \<in> {j..<j + length (r # rs)}"
        using i by simp_all
      ultimately have "Suc j + i = j"
        using Cons.prems(2) by (meson inj_onD)
      then show False by simp
    qed
    ultimately show "log_ids rt (Suc j + i) \<notin> log_id ` set (logs @ [?l])"
      by simp
  qed
  have "inj_on (log_ids rt) {Suc j..<Suc j + length rs}"
    by (rule inj_on_subset [OF Cons.prems(2)]) auto
  from Cons.IH [OF fresh this] first show ?case
    by simp
qed

lemma get_recommendations_returns:
  assumes "1 \<le> k" and "k \<le> 50" and "uid \<in> user_id ` set (users s)"
    and "inj_on (log_ids rt) {0..<nat k}"
    and "\<forall>i<nat k. log_ids rt i \<notin> log_id ` set (recommendation_logs s)"
  shows "\<exists>s' resp. get_recommendations rt s uid k strat = (s', Inr resp)"
proof -
  from assms(3) obtain usr where usr: "find (\<lambda>u. user_id u = uid) (users s) = Some usr"
    using find_None_ids [of user_id uid "users s"] by (cases "find (\<lambda>u. user_id u = uid) (users s)") auto
  let ?top = "take (nat k) (sort_by_score (score_all rt (events s) usr strat 0 (contents s)))"
  have len: "length ?top \<le> nat k"
    by simp
  have "\<forall>i<length ?top. log_ids rt (0 + i) \<notin> log_id ` set (recommendation_logs s)"
    using assms(5) len by auto
  moreover have "inj_on (log_ids rt) {0..<0 + length ?top}"
    by (rule inj_on_subset [OF assms(4)]) (use len in auto)
  ultimately obtain logs' where
    "log_recommendations rt uid 0 ?top (recommendation_logs s) = Inr logs'"
    using log_recommendations_fresh by blast
  then show ?thesis
    using assms(1,2) usr by (simp add: get_recommendations_def Let_def)
qed

end
